theory Spec2Isabelle
  imports Complex_Main "HOL-Library.AList"
begin

section \<open>Text: characters and strings as Python sees them\<close>

text \<open>
  A Python \<open>str\<close> is modelled by \<^typ>\<open>string\<close>. The embedding covers ASCII text: a
  \<^typ>\<open>char\<close> stands for the code point of the same number, and the character classes
  below are those of Python's \<open>str\<close> methods and of the \<open>re\<close> module on code points
  below 128.
\<close>

definition is_digit :: "char \<Rightarrow> bool" where
  "is_digit c = (c \<in> set ''0123456789'')"

definition is_az :: "char \<Rightarrow> bool" where
  "is_az c = (c \<in> set ''abcdefghijklmnopqrstuvwxyz'')"

definition is_AZ :: "char \<Rightarrow> bool" where
  "is_AZ c = (c \<in> set ''ABCDEFGHIJKLMNOPQRSTUVWXYZ'')"

text \<open>\<open>str.isspace\<close>, \<open>str.split()\<close>, \<open>str.strip()\<close> and the pattern \<open>\s\<close> agree on
  ASCII: the code points 9 to 13, 28 to 31 and 32.\<close>

definition is_space :: "char \<Rightarrow> bool" where
  "is_space c = (c \<in> set [CHR 0x09, CHR 0x0A, CHR 0x0B, CHR 0x0C, CHR 0x0D,
                          CHR 0x1C, CHR 0x1D, CHR 0x1E, CHR 0x1F, CHR 0x20])"

text \<open>A word character for \<open>\b\<close>: a letter, a digit or the underscore.\<close>

definition is_word :: "char \<Rightarrow> bool" where
  "is_word c = (is_az c \<or> is_AZ c \<or> is_digit c \<or> c = CHR ''_'')"

definition lower_char :: "char \<Rightarrow> char" where
  "lower_char c =
     (case map_of (zip ''ABCDEFGHIJKLMNOPQRSTUVWXYZ'' ''abcdefghijklmnopqrstuvwxyz'') c of
        Some d \<Rightarrow> d
      | None \<Rightarrow> c)"

text \<open>\<open>str.lower()\<close>\<close>

definition lower :: "string \<Rightarrow> string" where
  "lower s = map lower_char s"

text \<open>\<open>str.strip()\<close>\<close>

definition strip :: "string \<Rightarrow> string" where
  "strip s = rev (dropWhile is_space (rev (dropWhile is_space s)))"

text \<open>\<open>str.split()\<close> with no argument: the maximal runs of non-whitespace characters.
  The second argument is the word being collected.\<close>

fun split_acc :: "string \<Rightarrow> string \<Rightarrow> string list" where
  "split_acc [] w = (if w = [] then [] else [w])"
| "split_acc (c # cs) w =
     (if is_space c then (if w = [] then split_acc cs [] else w # split_acc cs [])
      else split_acc cs (w @ [c]))"

definition split :: "string \<Rightarrow> string list" where
  "split s = split_acc s []"

text \<open>\<open>' '.join(ws)\<close>\<close>

fun join_sp :: "string list \<Rightarrow> string" where
  "join_sp [] = []"
| "join_sp [w] = w"
| "join_sp (w # ws) = w @ CHR '' '' # join_sp ws"

text \<open>\<open>pattern in text\<close> on strings: \<open>pattern\<close> occurs as a contiguous substring.\<close>

fun contains :: "string \<Rightarrow> string \<Rightarrow> bool" where
  "contains p [] = (p = [])"
| "contains p (c # cs) = (take (length p) (c # cs) = p \<or> contains p cs)"

section \<open>The regular expressions of \<open>preprocess_text\<close>\<close>

text \<open>
  The patterns of \<open>MLCategorizer.preprocess_text\<close> use literal characters, a few character
  classes, greedy repetition of a single character or class, the anchors \<open>^\<close>, \<open>$\<close> and
  \<open>\b\<close>, concatenation and alternation. All of them are compiled with \<open>re.IGNORECASE\<close>.
\<close>

datatype cclass =
    Lit char      \<comment> \<open>a literal character, either case\<close>
  | Digit         \<comment> \<open>\<open>\d\<close>\<close>
  | Space         \<comment> \<open>\<open>\s\<close>\<close>
  | NonSpace      \<comment> \<open>\<open>\S\<close>\<close>
  | Dot           \<comment> \<open>\<open>.\<close>: any character but a newline\<close>
  | Letter        \<comment> \<open>\<open>[a-z]\<close>, either case\<close>
  | NotRParen     \<comment> \<open>\<open>[^)]\<close>\<close>
  | DashSpace     \<comment> \<open>\<open>[-\s]\<close>\<close>

datatype regex =
    Eps
  | One cclass
  | Rep nat "nat option" cclass   \<comment> \<open>greedy \<open>c{m,n}\<close>; no upper bound when \<open>None\<close>\<close>
  | Bol                           \<comment> \<open>\<open>^\<close>\<close>
  | Eol                           \<comment> \<open>\<open>$\<close>\<close>
  | WordB                         \<comment> \<open>\<open>\b\<close>\<close>
  | Cat regex regex
  | Alt regex regex

fun cmatch :: "cclass \<Rightarrow> char \<Rightarrow> bool" where
  "cmatch (Lit x) c = (lower_char c = lower_char x)"
| "cmatch Digit c = is_digit c"
| "cmatch Space c = is_space c"
| "cmatch NonSpace c = (\<not> is_space c)"
| "cmatch Dot c = (c \<noteq> CHR 0x0A)"
| "cmatch Letter c = (is_az c \<or> is_AZ c)"
| "cmatch NotRParen c = (c \<noteq> CHR '')'')"
| "cmatch DashSpace c = (c = CHR ''-'' \<or> is_space c)"

text \<open>
  A position in the subject string: the character before it (\<open>None\<close> at the start of the
  string) and the rest of the string from it.
\<close>

type_synonym pos = "char option \<times> string"

text \<open>
  Greedy repetition of a class, between \<open>m\<close> and \<open>n\<close> times: the positions where it can
  stop, the longest run first, as the backtracking matcher tries them.
\<close>

fun rep :: "cclass \<Rightarrow> nat \<Rightarrow> nat option \<Rightarrow> pos \<Rightarrow> pos list" where
  "rep k m n (pv, []) = (if m = 0 then [(pv, [])] else [])"
| "rep k m n (pv, c # cs) =
     (if n \<noteq> Some 0 \<and> cmatch k c
      then rep k (m - 1) (map_option (\<lambda>j. j - 1) n) (Some c, cs) else [])
     @ (if m = 0 then [(pv, c # cs)] else [])"

text \<open>
  \<open>ms r p\<close>: the positions where a match of \<open>r\<close> starting at \<open>p\<close> can end, in the order
  in which Python's backtracking matcher finds them; the head is the match it reports.
\<close>

fun ms :: "regex \<Rightarrow> pos \<Rightarrow> pos list" where
  "ms Eps p = [p]"
| "ms (One k) (pv, s) =
     (case s of [] \<Rightarrow> [] | c # cs \<Rightarrow> if cmatch k c then [(Some c, cs)] else [])"
| "ms (Rep m n k) p = rep k m n p"
| "ms Bol (pv, s) = (if pv = None then [(pv, s)] else [])"
| "ms Eol (pv, s) = (if s = [] \<or> s = [CHR 0x0A] then [(pv, s)] else [])"
| "ms WordB (pv, s) =
     (if (case pv of None \<Rightarrow> False | Some c \<Rightarrow> is_word c)
         \<noteq> (case s of [] \<Rightarrow> False | c # _ \<Rightarrow> is_word c)
      then [(pv, s)] else [])"
| "ms (Cat a b) p = concat (map (ms b) (ms a p))"
| "ms (Alt a b) p = ms a p @ ms b p"

text \<open>\<open>re.search\<close>: is there a match starting at this position or at a later one?\<close>

fun search_from :: "regex \<Rightarrow> pos \<Rightarrow> bool" where
  "search_from r (pv, []) = (ms r (pv, []) \<noteq> [])"
| "search_from r (pv, c # cs) = (ms r (pv, c # cs) \<noteq> [] \<or> search_from r (Some c, cs))"

definition re_search :: "regex \<Rightarrow> string \<Rightarrow> bool" where
  "re_search r s = search_from r (None, s)"

text \<open>
  \<open>re.sub\<close>: scan from the left; at each position take the first match the matcher finds,
  replace it and go on behind it; where there is none, keep the character. None of the
  patterns below can match the empty string (\<open>min_len\<close>, further down), so the scan
  treats an empty match as no match.
\<close>

function sub_from :: "regex \<Rightarrow> string \<Rightarrow> pos \<Rightarrow> string" where
  "sub_from r rp (pv, []) = []"
| "sub_from r rp (pv, c # cs) =
     (case ms r (pv, c # cs) of
        [] \<Rightarrow> c # sub_from r rp (Some c, cs)
      | (pv', s') # _ \<Rightarrow>
          if length s' < length (c # cs) then rp @ sub_from r rp (pv', s')
          else c # sub_from r rp (Some c, cs))"
  by pat_completeness auto
termination
  by (relation "measure (\<lambda>(r, rp, pv, s). length s)") auto

definition re_sub :: "regex \<Rightarrow> string \<Rightarrow> string \<Rightarrow> string" where
  "re_sub r rp s = sub_from r rp (None, s)"

text \<open>Building patterns: a literal word, a sequence, and the quantifiers \<open>*\<close>, \<open>+\<close>, \<open>?\<close>.\<close>

definition lit :: "string \<Rightarrow> regex" where
  "lit s = foldr (\<lambda>c r. Cat (One (Lit c)) r) s Eps"

definition seq :: "regex list \<Rightarrow> regex" where
  "seq rs = foldr Cat rs Eps"

definition star :: "cclass \<Rightarrow> regex" where
  "star k = Rep 0 None k"

definition plus1 :: "cclass \<Rightarrow> regex" where
  "plus1 k = Rep 1 None k"

definition opt :: "cclass \<Rightarrow> regex" where
  "opt k = Rep 0 (Some 1) k"

text \<open>The least number of characters a match of the pattern takes.\<close>

fun min_len :: "regex \<Rightarrow> nat" where
  "min_len Eps = 0"
| "min_len (One k) = 1"
| "min_len (Rep m n k) = m"
| "min_len Bol = 0"
| "min_len Eol = 0"
| "min_len WordB = 0"
| "min_len (Cat a b) = min_len a + min_len b"
| "min_len (Alt a b) = min (min_len a) (min_len b)"

section \<open>\<open>MLCategorizer.preprocess_text\<close>\<close>

text \<open>The list \<open>prefixes_to_remove\<close>, in the source's order.\<close>

definition prefixes_to_remove :: "regex list" where
  "prefixes_to_remove =
    [ seq [Bol, lit ''withdrawal'', star DashSpace, opt (Lit CHR ''@''), star Space],
      seq [Bol, lit ''deposit'', star DashSpace, opt (Lit CHR ''@''), star Space],
      seq [Bol, lit ''withdrawal-ach-a-'', star NonSpace, star Space],
      seq [Bol, lit ''deposit-ach-a-'', star NonSpace, star Space],
      seq [Bol, lit ''withdrawal-transfer-'', star NonSpace, star Space],
      seq [Bol, lit ''web''] ]"

text \<open>The list \<open>noise_patterns\<close>, in the source's order.\<close>

definition noise_patterns :: "regex list" where
  "noise_patterns =
    [ Rep 6 None Digit,
      seq [lit ''#'', plus1 Digit],
      seq [lit ''('', plus1 Digit, lit '')''],
      seq [lit ''('', star NotRParen, lit '')''],
      seq [lit ''trace'', star Space, opt (Lit CHR ''#''), star Space, plus1 Digit],
      seq [lit ''eff'', opt (Lit CHR ''.''), star Space, lit ''date'', star Dot],
      seq [Rep 1 (Some 2) Digit, lit ''/'', Rep 1 (Some 2) Digit, lit ''/'', Rep 2 (Some 4) Digit],
      seq [Rep 3 (Some 3) Digit, opt DashSpace, Rep 3 (Some 3) Digit, opt DashSpace,
           Rep 4 (Some 4) Digit],
      seq [WordB, Rep 2 (Some 2) Letter, plus1 Space, lit ''us'', WordB],
      seq [WordB, lit ''us'', WordB, Eol],
      seq [WordB, lit ''ca'', WordB, Eol],
      seq [lit ''online'', star Space, lit ''access''],
      seq [lit ''transfer'', star Space, Alt (lit ''std'') (lit ''dts'')],
      seq [lit ''from'', plus1 Space, lit ''share'', plus1 Space, plus1 Digit],
      seq [lit ''to'', plus1 Space, lit ''share'', plus1 Space, plus1 Digit],
      seq [lit ''item'', star Space, opt (Lit CHR ''#''), plus1 Digit],
      seq [lit ''ro'', star Space, plus1 Digit],
      seq [plus1 Digit, star Space, One Letter, plus1 Space, plus1 Letter, plus1 Space,
           Alt (seq [lit ''av'', opt (Lit CHR ''e'')])
             (Alt (lit ''st'') (Alt (lit ''rd'') (Alt (lit ''blvd'') (Alt (lit ''dr'') (lit ''way'')))))] ]"

text \<open>
  The source's last substitution, \<open>re.sub(r'[^a-z0-9\s]', ' ', text)\<close>, has no
  \<open>IGNORECASE\<close> flag: it replaces each character that is not a lower-case letter, a
  digit or whitespace by a space.
\<close>

definition keep_char :: "char \<Rightarrow> bool" where
  "keep_char c = (is_az c \<or> is_digit c \<or> is_space c)"

definition remove_special :: "string \<Rightarrow> string" where
  "remove_special s = map (\<lambda>c. if keep_char c then c else CHR '' '') s"

definition preprocess_text :: "string \<Rightarrow> string" where
  "preprocess_text text =
     (if text = [] then []
      else let t1 = lower text;
               t2 = fold (\<lambda>p t. re_sub p [] t) prefixes_to_remove t1;
               t3 = fold (\<lambda>p t. re_sub p '' '' t) noise_patterns t2;
               t4 = remove_special t3;
               t5 = join_sp (split t4)
           in strip t5)"

text \<open>The last three steps of \<open>preprocess_text\<close> on their own.\<close>

definition tidy :: "string \<Rightarrow> string" where
  "tidy t = strip (join_sp (split (remove_special t)))"

text \<open>A token: a non-empty string without whitespace, as \<open>str.split()\<close> returns them.\<close>

definition is_token :: "string \<Rightarrow> bool" where
  "is_token w = (w \<noteq> [] \<and> (\<forall>c \<in> set w. \<not> is_space c))"

section \<open>Exceptions and truth values\<close>

text \<open>
  An exception is a value: \<open>re_error\<close> is \<open>re.error\<close>, the only class the rule engine
  catches by name; every other exception carries the name of its class. A computation
  that may raise returns \<open>exn + 'a\<close>.
\<close>

datatype exn = re_error | Exception string

text \<open>Python's truth value of an optional integer id: \<open>None\<close> and \<open>0\<close> are false.\<close>

definition truthy_id :: "int option \<Rightarrow> bool" where
  "truthy_id x = (case x of None \<Rightarrow> False | Some i \<Rightarrow> i \<noteq> 0)"

text \<open>The truth value of an optional string: \<open>None\<close> and \<open>''\<close> are false.\<close>

definition truthy_str :: "string option \<Rightarrow> bool" where
  "truthy_str x = (case x of None \<Rightarrow> False | Some s \<Rightarrow> s \<noteq> [])"

text \<open>\<open>x or ''\<close>\<close>

definition or_empty :: "string option \<Rightarrow> string" where
  "or_empty x = (case x of None \<Rightarrow> [] | Some s \<Rightarrow> s)"

section \<open>The tables of \<open>models.py\<close>\<close>

record category =
  cat_id :: int
  cat_name :: string

record categorization_rule =
  pattern :: string
  match_type :: string
  category_id :: int
  priority :: int

text \<open>
  Modelled from the spec: the soft-delete marker of a transaction. \<open>models.py\<close> declares
  no \<open>deleted_at\<close> column, while \<open>ml_categorizer.py\<close>, \<open>budgets.py\<close> and \<open>reports.py\<close>
  filter on \<open>Transaction.deleted_at\<close>; the specification's \<open>listCategorizedTransactions\<close>
  "excludes soft-deleted records". \<open>txn_deleted\<close> says whether the marker is set. The
  other fields are the columns of \<open>Transaction\<close> that the categorizer reads.
\<close>

record txn =
  txn_merchant :: "string option"
  txn_description :: "string option"
  txn_category_id :: "int option"
  txn_deleted :: bool

section \<open>\<open>categorizer.py\<close>: the rule engine and \<open>categorize_transaction\<close>\<close>

text \<open>
  \<open>re.search(pattern, text, re.IGNORECASE)\<close> on a pattern a user wrote is the library's
  business; it is a parameter: \<open>Inr b\<close> when the pattern compiles (\<open>b\<close>: a match was
  found), \<open>Inl e\<close> when the call raises \<open>e\<close>.
\<close>

type_synonym re_lib = "string \<Rightarrow> string \<Rightarrow> exn + bool"

text \<open>
  \<open>CategorizationRule.query.order_by(CategorizationRule.priority.desc()).all()\<close>:
  the rules by descending priority, rules of equal priority in table order.
\<close>

definition order_by_priority_desc :: "categorization_rule list \<Rightarrow> categorization_rule list" where
  "order_by_priority_desc rules = sort_key (\<lambda>r. - priority r) rules"

text \<open>
  The body of the loop of \<open>rule_based_categorize\<close> for one rule: the value of \<open>match\<close>
  when the test below it is reached. \<open>continue\<close> after \<open>re.error\<close> skips that test, as
  \<open>match = False\<close> does; any other exception leaves the function.
\<close>

definition rule_match :: "re_lib \<Rightarrow> categorization_rule \<Rightarrow> string \<Rightarrow> exn + bool" where
  "rule_match re rule text =
     (let pat = lower (pattern rule) in
      if match_type rule = ''exact'' then Inr (pat = text)
      else if match_type rule = ''contains'' then Inr (contains pat text)
      else if match_type rule = ''regex'' then
        (case re pat text of
           Inr m \<Rightarrow> Inr m
         | Inl e \<Rightarrow> if e = re_error then Inr False else Inl e)
      else Inr False)"

fun scan_rules :: "re_lib \<Rightarrow> categorization_rule list \<Rightarrow> string \<Rightarrow> exn + int option" where
  "scan_rules re [] text = Inr None"
| "scan_rules re (rule # rules) text =
     (case rule_match re rule text of
        Inl e \<Rightarrow> Inl e
      | Inr m \<Rightarrow> if m then Inr (Some (category_id rule)) else scan_rules re rules text)"

definition rule_based_categorize ::
  "re_lib \<Rightarrow> categorization_rule list \<Rightarrow> string \<Rightarrow> exn + int option" where
  "rule_based_categorize re rules_table text = scan_rules re (order_by_priority_desc rules_table) text"

text \<open>The stub: \<open>return None\<close>.\<close>

definition classifier_predict :: "string \<Rightarrow> int option" where
  "classifier_predict text = None"

text \<open>\<open>Category.query.filter_by(name='Uncategorized').first()\<close>\<close>

definition first_by_name :: "category list \<Rightarrow> string \<Rightarrow> category option" where
  "first_by_name cats n = find (\<lambda>c. cat_name c = n) cats"

text \<open>\<open>Category.query.get(id)\<close>\<close>

definition get_category :: "category list \<Rightarrow> int \<Rightarrow> category option" where
  "get_category cats i = find (\<lambda>c. cat_id c = i) cats"

text \<open>One of the three rule attempts: \<open>if text:\<close> then the rules, and \<open>if category_id:\<close>.\<close>

definition try_rules ::
  "re_lib \<Rightarrow> categorization_rule list \<Rightarrow> string \<Rightarrow> exn + int option" where
  "try_rules re rules_table text =
     (if text = [] then Inr None
      else case rule_based_categorize re rules_table text of
             Inl e \<Rightarrow> Inl e
           | Inr r \<Rightarrow> if truthy_id r then Inr r else Inr None)"

text \<open>
  The process state the categorizers read and write: the three tables, the module global
  \<open>_ml_categorizer\<close> of \<open>ml_categorizer.py\<close> (\<open>None\<close> until first use) and the model
  directory. \<open>'v\<close> and \<open>'c\<close> are the library's vectorizer and classifier objects.
\<close>

datatype 'a pkl = Absent | Garbage | Pickle 'a

record ('v, 'c) disk =
  vectorizer_pkl :: "'v pkl"
  classifier_pkl :: "'c pkl"
  category_mapping_pkl :: "(nat \<times> int) list option pkl"

text \<open>
  An \<open>MLCategorizer\<close> instance. A Python \<open>dict\<close> is an association list with distinct
  keys, in insertion order.
\<close>

record ('v, 'c) ml_categorizer =
  vectorizer :: "'v option"
  classifier :: "'c option"
  category_mapping :: "(nat \<times> int) list option"
  reverse_mapping :: "(int \<times> nat) list option"

record ('v, 'c) world =
  rules_table :: "categorization_rule list"
  categories_table :: "category list"
  transactions_table :: "txn list"
  ml_global :: "('v, 'c) ml_categorizer option"
  models_dir :: "('v, 'c) disk"

definition categorize_transaction ::
  "re_lib \<Rightarrow> ('v, 'c) world \<Rightarrow> string option \<Rightarrow> string option \<Rightarrow> exn + int option" where
  "categorize_transaction re w merchant description =
     (let primary_text = strip (lower (or_empty merchant));
          secondary_text = strip (lower (or_empty description))
      in case try_rules re (rules_table w) primary_text of
           Inl e \<Rightarrow> Inl e
         | Inr (Some c) \<Rightarrow> Inr (Some c)
         | Inr None \<Rightarrow>
             (case try_rules re (rules_table w) secondary_text of
                Inl e \<Rightarrow> Inl e
              | Inr (Some c) \<Rightarrow> Inr (Some c)
              | Inr None \<Rightarrow>
                  (let combined_text = strip (primary_text @ '' '' @ secondary_text)
                   in case try_rules re (rules_table w) combined_text of
                        Inl e \<Rightarrow> Inl e
                      | Inr (Some c) \<Rightarrow> Inr (Some c)
                      | Inr None \<Rightarrow>
                          (let category_id = classifier_predict combined_text
                           in if truthy_id category_id then Inr category_id
                              else case first_by_name (categories_table w) ''Uncategorized'' of
                                     Some uncategorized \<Rightarrow> Inr (Some (cat_id uncategorized))
                                   | None \<Rightarrow> Inr None))))"

section \<open>\<open>ml_categorizer.py\<close>: the model, prediction and persistence\<close>

text \<open>
  What the categorizer uses of scikit-learn, as parameters. \<open>'x\<close> is a feature matrix,
  \<open>'r\<close> a classification report. \<open>fit_transform\<close> and \<open>fit\<close> return the fitted object
  (the library fits in place). A live estimator object counts as true in \<open>if not ...\<close>.
\<close>

record ('v, 'c, 'x, 'r) sklearn =
  train_test_split ::
    "string list \<Rightarrow> nat list \<Rightarrow> exn + (string list \<times> string list \<times> nat list \<times> nat list)"
  TfidfVectorizer :: 'v
  fit_transform :: "'v \<Rightarrow> string list \<Rightarrow> exn + ('v \<times> 'x)"
  transform :: "'v \<Rightarrow> string list \<Rightarrow> exn + 'x"
  RandomForestClassifier :: 'c
  fit :: "'c \<Rightarrow> 'x \<Rightarrow> nat list \<Rightarrow> exn + 'c"
  clf_predict :: "'c \<Rightarrow> 'x \<Rightarrow> exn + nat list"
  predict_proba :: "'c \<Rightarrow> 'x \<Rightarrow> exn + real list list"
  accuracy_score :: "nat list \<Rightarrow> nat list \<Rightarrow> exn + real"
  classification_report :: "nat list \<Rightarrow> nat list \<Rightarrow> string list \<Rightarrow> exn + 'r"

text \<open>\<open>{k: v for k, v in pairs}\<close>: a later pair with the same key replaces the value.\<close>

definition dict_of :: "('k \<times> 'a) list \<Rightarrow> ('k \<times> 'a) list" where
  "dict_of ps = fold (\<lambda>(k, v). AList.update k v) ps []"

text \<open>\<open>{cat_id: i for i, cat_id in category_mapping.items()}\<close>\<close>

definition reverse_of :: "(nat \<times> int) list \<Rightarrow> (int \<times> nat) list" where
  "reverse_of m = dict_of (map (\<lambda>(i, cat). (cat, i)) m)"

text \<open>\<open>numpy.argmax\<close> of a non-empty vector: the index of the first maximum.\<close>

definition argmax :: "real list \<Rightarrow> nat" where
  "argmax ps = length (takeWhile (\<lambda>p. p \<noteq> Max (set ps)) ps)"

text \<open>
  The first three statements of the \<open>try\<close> block of \<open>predict\<close>: the classifier's
  probabilities for the processed text.
\<close>

definition class_probabilities ::
  "('v, 'c, 'x, 'r) sklearn \<Rightarrow> 'v \<Rightarrow> 'c \<Rightarrow> string \<Rightarrow> exn + real list" where
  "class_probabilities sk v c processed =
     (case transform sk v [processed] of
        Inl e \<Rightarrow> Inl e
      | Inr X \<Rightarrow>
          (case predict_proba sk c X of
             Inl e \<Rightarrow> Inl e
           | Inr rows \<Rightarrow>
               (case rows of
                  [] \<Rightarrow> Inl (Exception ''IndexError'')
                | probabilities # _ \<Rightarrow>
                    if probabilities = [] then Inl (Exception ''ValueError'')
                    else Inr probabilities)))"

text \<open>The whole \<open>try\<close> block of \<open>predict\<close>.\<close>

definition predict_try ::
  "('v, 'c, 'x, 'r) sklearn \<Rightarrow> ('v, 'c) ml_categorizer \<Rightarrow> 'v \<Rightarrow> 'c \<Rightarrow> string \<Rightarrow> real
     \<Rightarrow> exn + (int option \<times> real)" where
  "predict_try sk self v c processed confidence_threshold =
     (case class_probabilities sk v c processed of
        Inl e \<Rightarrow> Inl e
      | Inr probabilities \<Rightarrow>
          (let predicted_idx = argmax probabilities;
               confidence = probabilities ! predicted_idx
           in if confidence < confidence_threshold then Inr (None, 0)
              else case category_mapping self of
                     None \<Rightarrow> Inl (Exception ''TypeError'')
                   | Some m \<Rightarrow>
                       (case map_of m predicted_idx of
                          None \<Rightarrow> Inl (Exception ''KeyError'')
                        | Some cat \<Rightarrow> Inr (Some cat, confidence))))"

text \<open>\<open>MLCategorizer.predict\<close>; \<open>except Exception\<close> turns every exception of the block
  into \<open>(None, 0)\<close>.\<close>

definition predict ::
  "('v, 'c, 'x, 'r) sklearn \<Rightarrow> ('v, 'c) ml_categorizer \<Rightarrow> string \<Rightarrow> real \<Rightarrow> int option \<times> real" where
  "predict sk self text confidence_threshold =
     (case (vectorizer self, classifier self) of
        (Some v, Some c) \<Rightarrow>
          (let processed = preprocess_text text
           in if processed = [] then (None, 0)
              else case predict_try sk self v c processed confidence_threshold of
                     Inl e \<Rightarrow> (None, 0)
                   | Inr result \<Rightarrow> result)
      | _ \<Rightarrow> (None, 0))"

text \<open>The default of \<open>confidence_threshold\<close> in \<open>predict\<close> and \<open>ml_categorize\<close>.\<close>

definition default_threshold :: real where
  "default_threshold = 0.15"

text \<open>
  Writing one file in \<open>save_model\<close>: \<open>open(path, 'wb')\<close> may fail, which leaves the file
  as it was, or \<open>pickle.dump\<close> may fail, which leaves a truncated file.
\<close>

datatype write_outcome = Written | OpenFails | DumpFails

datatype fname = vectorizer_file | classifier_file | category_mapping_file

definition write_file :: "write_outcome \<Rightarrow> 'a \<Rightarrow> 'a pkl \<Rightarrow> 'a pkl" where
  "write_file out obj old = (case out of Written \<Rightarrow> Pickle obj | OpenFails \<Rightarrow> old | DumpFails \<Rightarrow> Garbage)"

text \<open>
  \<open>save_model\<close>: the successive contents of the directory, one per file the function
  opened, and the value returned. \<open>io\<close> says how each write ends.
\<close>

definition save_model ::
  "(fname \<Rightarrow> write_outcome) \<Rightarrow> ('v, 'c) ml_categorizer \<Rightarrow> ('v, 'c) disk
     \<Rightarrow> ('v, 'c) disk list \<times> bool" where
  "save_model io self d =
     (case (vectorizer self, classifier self) of
        (Some v, Some c) \<Rightarrow>
          (let d1 = d\<lparr>vectorizer_pkl := write_file (io vectorizer_file) v (vectorizer_pkl d)\<rparr>
           in if io vectorizer_file \<noteq> Written then ([d1], False)
              else let d2 = d1\<lparr>classifier_pkl :=
                                 write_file (io classifier_file) c (classifier_pkl d1)\<rparr>
                   in if io classifier_file \<noteq> Written then ([d1, d2], False)
                      else let d3 = d2\<lparr>category_mapping_pkl :=
                                         write_file (io category_mapping_file)
                                           (category_mapping self) (category_mapping_pkl d2)\<rparr>
                           in ([d1, d2, d3], io category_mapping_file = Written))
      | _ \<Rightarrow> ([], False))"

text \<open>\<open>load_model\<close>: the instance after the call and the value returned.\<close>

definition load_model ::
  "('v, 'c) ml_categorizer \<Rightarrow> ('v, 'c) disk \<Rightarrow> ('v, 'c) ml_categorizer \<times> bool" where
  "load_model self d =
     (if vectorizer_pkl d = Absent \<or> classifier_pkl d = Absent \<or> category_mapping_pkl d = Absent
      then (self, False)
      else case vectorizer_pkl d of
             Pickle v \<Rightarrow>
               (let s1 = self\<lparr>vectorizer := Some v\<rparr>
                in case classifier_pkl d of
                     Pickle c \<Rightarrow>
                       (let s2 = s1\<lparr>classifier := Some c\<rparr>
                        in case category_mapping_pkl d of
                             Pickle m \<Rightarrow>
                               (let s3 = s2\<lparr>category_mapping := m\<rparr>
                                in case m of
                                     Some items \<Rightarrow>
                                       (s3\<lparr>reverse_mapping := Some (reverse_of items)\<rparr>, True)
                                   | None \<Rightarrow> (s3, False))
                           | _ \<Rightarrow> (s2, False))
                   | _ \<Rightarrow> (s1, False))
           | _ \<Rightarrow> (self, False))"

text \<open>\<open>MLCategorizer.__init__\<close>: four fields \<open>None\<close>, then \<open>load_model\<close>, whose result
  is dropped.\<close>

definition blank_categorizer :: "('v, 'c) ml_categorizer" where
  "blank_categorizer = \<lparr>vectorizer = None, classifier = None, category_mapping = None,
                         reverse_mapping = None\<rparr>"

definition new_categorizer :: "('v, 'c) disk \<Rightarrow> ('v, 'c) ml_categorizer" where
  "new_categorizer d = fst (load_model blank_categorizer d)"

definition get_ml_categorizer ::
  "('v, 'c) world \<Rightarrow> ('v, 'c) ml_categorizer \<times> ('v, 'c) world" where
  "get_ml_categorizer w =
     (case ml_global w of
        Some self \<Rightarrow> (self, w)
      | None \<Rightarrow> (let self = new_categorizer (models_dir w) in (self, w\<lparr>ml_global := Some self\<rparr>)))"

text \<open>\<open>ml_categorize\<close>: the pair it returns and the world, in which the global is now set.\<close>

definition ml_categorize ::
  "('v, 'c, 'x, 'r) sklearn \<Rightarrow> ('v, 'c) world \<Rightarrow> string option \<Rightarrow> string option \<Rightarrow> real
     \<Rightarrow> (int option \<times> real) \<times> ('v, 'c) world" where
  "ml_categorize sk w merchant description confidence_threshold =
     (let (categorizer, w') = get_ml_categorizer w;
          by_merchant = predict sk categorizer (or_empty merchant) confidence_threshold;
          by_description = predict sk categorizer (or_empty description) confidence_threshold;
          combined = strip (or_empty merchant @ '' '' @ or_empty description);
          by_combined = predict sk categorizer combined confidence_threshold
      in if truthy_str merchant \<and> truthy_id (fst by_merchant) then (by_merchant, w')
         else if truthy_str description \<and> truthy_id (fst by_description) then (by_description, w')
         else if combined \<noteq> [] \<and> truthy_id (fst by_combined) then (by_combined, w')
         else ((None, 0), w'))"

section \<open>\<open>ml_categorizer.py\<close>: training data and \<open>train\<close>\<close>

text \<open>
  The built-in merchant lists of \<open>get_training_data\<close>, in the source's order: the
  category names tried by \<open>get_cat_id\<close> and the merchants filed under the first of them
  that exists.
\<close>

definition lexicon :: "(string list \<times> string list) list" where
  "lexicon =
    [
      ([''Auto Insurance'', ''Insurance''],
       [''state farm'', ''state farm ro'', ''sfpp'', ''state farm sfpp'', ''allstate'',
        ''geico'', ''progressive'', ''farmers insurance'', ''liberty mutual'',
        ''nationwide'', ''usaa'', ''american family'', ''travelers'', ''esurance'',
        ''the general'', ''root insurance'']),
      ([''Health Insurance'', ''Insurance'', ''Medical''],
       [''aetna'', ''blue cross'', ''blue shield'', ''united healthcare'', ''cigna'',
        ''humana'', ''kaiser'', ''anthem'', ''health insurance'']),
      ([''Groceries''],
       [''walmart'', ''walmart supercenter'', ''target'', ''kroger'', ''safeway'',
        ''albertsons'', ''publix'', ''whole foods'', ''trader joes'', ''trader joe'',
        ''aldi'', ''costco'', ''costco whse'', ''costco wholesale'', ''sams club'',
        ''food 4 less'', ''food4less'', ''food lion'', ''heb'', ''meijer'', ''wegmans'',
        ''sprouts'', ''winco'', ''grocery'', ''north fresno grocery'', ''instacart'',
        ''groceries'', ''supermarket'', ''market'']),
      ([''Restaurants''],
       [''restaurant'', ''olive garden'', ''applebees'', ''chilis'', ''red lobster'',
        ''outback'', ''texas roadhouse'', ''buffalo wild wings'', ''dennys'', ''ihop'',
        ''cheesecake factory'', ''panera'', ''chipotle'', ''qdoba'', ''subway'',
        ''cafe rio'', ''papa murphys'', ''papa murphy'', ''uber eats'', ''doordash'',
        ''grubhub'', ''postmates'', ''kona ice'', ''dining'', ''grill'', ''bistro'']),
      ([''Coffee Shops''],
       [''starbucks'', ''dunkin'', ''peets coffee'', ''dutch bros'', ''coffee'', ''cafe'',
        ''espresso'', ''caribou coffee'', ''tim hortons'']),
      ([''Fast Food''],
       [''mcdonalds'', ''burger king'', ''wendys'', ''taco bell'', ''kfc'', ''popeyes'',
        ''chick fil a'', ''chickfila'', ''five guys'', ''in n out'', ''jack in the box'',
        ''sonic'', ''arbys'', ''carls jr'', ''hardees'']),
      ([''Gas''],
       [''shell'', ''exxon'', ''chevron'', ''bp'', ''texaco'', ''speedway'', ''circle k'',
        ''7 eleven'', ''7eleven'', ''gas station'', ''fuel'', ''valero'', ''arco'',
        ''mobil'', ''marathon'', ''sunoco'']),
      ([''Utilities''],
       [''pgande'', ''pge'', ''pg e'', ''pge ez pay'', ''pacific gas'', ''electric'',
        ''power company'', ''water'', ''city of clovis'', ''city of fresno'', ''comcast'',
        ''xfinity'', ''verizon'', ''at t'', ''att'', ''t mobile'', ''tmobile'',
        ''spectrum'', ''cox'', ''frontier'', ''utility'', ''utilities'']),
      ([''Rent/Mortgage''],
       [''freedom'', ''freedom mortgage'', ''freedom mtg'', ''mtg pymts'', ''mortgage'',
        ''rent'', ''quicken loans'', ''rocket mortgage'', ''lease'', ''housing'']),
      ([''Transfers''],
       [''venmo'', ''venmo payment'', ''venmo cashout'', ''tech cu'', ''amex epayment'',
        ''american express'', ''target card srvc'', ''chase credit crd'',
        ''chase autopay'', ''citi thankyou'', ''macys'', ''shop your way mc'',
        ''sears payment'', ''sears click2pay'', ''atm'', ''atmxl'',
        ''withdrawal transfer'', ''tsdl'', ''transfer std'', ''transfer dts'',
        ''pacific service cu'', ''eecu'', ''credit card payment'', ''payment'']),
      ([''Salary''],
       [''gusto'', ''rrg operations'', ''payroll'', ''direct deposit'', ''pay'',
        ''ramp reimburse'', ''salary'', ''wages'', ''employer'']),
      ([''Investments''],
       [''robinhood'', ''dividend'', ''fidelity'', ''vanguard'', ''schwab'', ''etrade'',
        ''td ameritrade'', ''investment'', ''brokerage'']),
      ([''Medical''],
       [''american benefit'', ''claim pmt'', ''hospital'', ''medical'', ''doctor'',
        ''dentist'', ''dental'', ''urgent care'', ''newsome'', ''optometrist'',
        ''frame doctors'', ''clinic'', ''physician'', ''healthcare'']),
      ([''Pharmacy''],
       [''cvs'', ''walgreens'', ''rite aid'', ''pharmacy'', ''costco rx'',
        ''walmart pharmacy'', ''drugstore'']),
      ([''Taxes''],
       [''irs treas'', ''irs'', ''tax ref'', ''tax refund'', ''franchise tax bd'',
        ''casttaxrfd'', ''state tax'', ''federal tax'', ''taxes'']),
      ([''Streaming Services''],
       [''netflix'', ''spotify'', ''hulu'', ''disney plus'', ''disney'', ''hbo max'',
        ''amazon prime'', ''apple tv'', ''youtube premium'', ''paramount'', ''peacock'',
        ''crunchyroll'']),
      ([''Subscriptions''],
       [''instacart subscription'', ''slidesgo'', ''privacycom'', ''patreon'', ''github'',
        ''dropbox'', ''google one'', ''icloud'', ''microsoft 365'', ''adobe'', ''canva'',
        ''subscription'']),
      ([''Shopping'', ''Clothing''],
       [''amazon'', ''amazon com'', ''ebay'', ''best buy'', ''the book nook'',
        ''book nook'', ''macys'', ''nordstrom'', ''kohls'', ''target'']),
      ([''Home Goods''],
       [''home depot'', ''lowes'', ''ikea'', ''fresno ag hardware'', ''hardware'',
        ''bed bath'', ''williams sonoma'', ''pottery barn'']),
      ([''Pet Care''],
       [''petco'', ''petsmart'', ''aquatic pets'', ''veterinarian'', ''vet'',
        ''animal hospital'', ''pet grooming'', ''pet'']),
      ([''Entertainment'', ''Movies''],
       [''san joaquin valley'', ''library'', ''garden bros circus'', ''circus'', ''amc'',
        ''regal'', ''cinemark'', ''movie'', ''theater'', ''museum'', ''zoo'']),
      ([''Education''],
       [''cusd'', ''clovis adult'', ''school'', ''university'', ''college'', ''udemy'',
        ''coursera'', ''education'', ''tuition'']),
      ([''Parking''],
       [''parkmobile'', ''cof parcs'', ''parking'', ''park'']),
      ([''Car Maintenance'', ''Transportation''],
       [''jiffy lube'', ''valvoline'', ''oil change'', ''car wash'', ''auto repair'',
        ''mechanic'', ''firestone'', ''goodyear'', ''pep boys'', ''autozone'']),
      ([''Personal Care''],
       [''gym'', ''planet fitness'', ''la fitness'', ''salon'', ''hair salon'', ''barber'',
        ''nail salon'', ''spa'', ''massage'', ''great clips''])
    ]"

text \<open>\<open>{cat.name: cat.id for cat in Category.query.all()}\<close>\<close>

definition db_categories :: "category list \<Rightarrow> (string \<times> int) list" where
  "db_categories cats = dict_of (map (\<lambda>c. (cat_name c, cat_id c)) cats)"

fun get_cat_id :: "(string \<times> int) list \<Rightarrow> string list \<Rightarrow> int option" where
  "get_cat_id db [] = None"
| "get_cat_id db (name # names) =
     (case map_of db name of Some i \<Rightarrow> Some i | None \<Rightarrow> get_cat_id db names)"

text \<open>\<open>training_entries\<close>: a block is skipped when its id is \<open>None\<close> or \<open>0\<close>.\<close>

definition training_entries :: "category list \<Rightarrow> (string \<times> int) list" where
  "training_entries cats =
     concat (map (\<lambda>(names, merchants).
                    case get_cat_id (db_categories cats) names of
                      None \<Rightarrow> []
                    | Some i \<Rightarrow> if i = 0 then [] else map (\<lambda>merchant. (merchant, i)) merchants)
                 lexicon)"

text \<open>One text of a sample: kept when it is there and is not empty once processed.\<close>

definition sample_of :: "string option \<Rightarrow> int \<Rightarrow> (string \<times> int) list" where
  "sample_of text label =
     (if truthy_str text \<and> preprocess_text (or_empty text) \<noteq> []
      then [(preprocess_text (or_empty text), label)] else [])"

definition txn_samples :: "txn \<Rightarrow> (string \<times> int) list" where
  "txn_samples t =
     (case txn_category_id t of
        None \<Rightarrow> []
      | Some label \<Rightarrow>
          if txn_deleted t then []
          else sample_of (txn_merchant t) label @ sample_of (txn_description t) label)"

text \<open>\<open>get_training_data\<close> returns the two parallel lists \<open>texts\<close> and \<open>labels\<close>.\<close>

definition get_training_data :: "category list \<Rightarrow> txn list \<Rightarrow> string list \<times> int list" where
  "get_training_data cats txns =
     (let samples = concat (map (\<lambda>(merchant, i). sample_of (Some merchant) i)
                                (training_entries cats))
                    @ concat (map txn_samples txns)
      in (map fst samples, map snd samples))"

text \<open>The samples left after the filter of \<open>train\<close>: the label occurs at least
  \<open>min_samples_per_category\<close> times among all labels, and the text is not blank.\<close>

definition filtered_samples :: "string list \<Rightarrow> int list \<Rightarrow> nat \<Rightarrow> (string \<times> int) list" where
  "filtered_samples texts labels min_samples_per_category =
     filter (\<lambda>(text, label). min_samples_per_category \<le> count_list labels label
                              \<and> strip text \<noteq> [])
            (zip texts labels)"

text \<open>\<open>[d[k] for k in ks]\<close>, with its \<open>KeyError\<close>.\<close>

fun lookup_all :: "('k \<times> 'a) list \<Rightarrow> 'k list \<Rightarrow> exn + 'a list" where
  "lookup_all d [] = Inr []"
| "lookup_all d (k # ks) =
     (case map_of d k of
        None \<Rightarrow> Inl (Exception ''KeyError'')
      | Some v \<Rightarrow> (case lookup_all d ks of Inl e \<Rightarrow> Inl e | Inr vs \<Rightarrow> Inr (v # vs)))"

text \<open>\<open>str(n)\<close> for the \<open>Unknown_{i}\<close> names of the report.\<close>

fun show_nat :: "nat \<Rightarrow> string" where
  "show_nat n =
     (if n < 10 then [''0123456789'' ! n]
      else show_nat (n div 10) @ [''0123456789'' ! (n mod 10)])"

declare show_nat.simps [simp del]

definition target_names :: "category list \<Rightarrow> (nat \<times> int) list \<Rightarrow> string list" where
  "target_names cats mapping =
     (let category_names =
            List.map_filter (\<lambda>(i, cat). map_option (\<lambda>c. (i, cat_name c)) (get_category cats cat))
                            mapping
      in map (\<lambda>i. case map_of category_names i of
                     Some n \<Rightarrow> n
                   | None \<Rightarrow> ''Unknown_'' @ show_nat i)
             [0 ..< length mapping])"

text \<open>\<open>round(x, 4)\<close>, on the reals: to the nearest multiple of \<open>1/10000\<close>, ties to even.\<close>

definition round4 :: "real \<Rightarrow> real" where
  "round4 x =
     (let y = x * 10000; f = \<lfloor>y\<rfloor>; r = y - of_int f
      in of_int (if r < 1/2 then f else if 1/2 < r then f + 1 else if even f then f else f + 1)
         / 10000)"

datatype 'r train_result =
    Failure string                \<comment> \<open>\<open>{'success': False, 'error': ...}\<close>\<close>
  | Success real nat nat 'r       \<comment> \<open>\<open>{'success': True, 'accuracy', 'samples', 'categories', 'report'}\<close>\<close>

text \<open>
  \<open>train\<close>, from the creation of the category mapping on. The first component lists,
  in order, the state (instance and model directory) after every assignment to a field
  of \<open>self\<close>, every in-place fit and every file opened by \<open>save_model\<close>; the state the
  call leaves behind is the last of them. The second component is what the call returns
  or raises. The result of \<open>save_model\<close> is not looked at.
\<close>

definition train_model_steps ::
  "('v, 'c, 'x, 'r) sklearn \<Rightarrow> (fname \<Rightarrow> write_outcome) \<Rightarrow> category list
     \<Rightarrow> ('v, 'c) ml_categorizer \<Rightarrow> ('v, 'c) disk \<Rightarrow> (string \<times> int) list
     \<Rightarrow> (('v, 'c) ml_categorizer \<times> ('v, 'c) disk) list \<times> (exn + 'r train_result)" where
  "train_model_steps sk io cats self d filtered =
     (let filtered_texts = map fst filtered;
          filtered_labels = map snd filtered;
          unique_labels = sort (remdups filtered_labels);
          mapping = enumerate 0 unique_labels;
          s1 = self\<lparr>category_mapping := Some mapping\<rparr>;
          s2 = s1\<lparr>reverse_mapping := Some (reverse_of mapping)\<rparr>
      in case lookup_all (reverse_of mapping) filtered_labels of
           Inl e \<Rightarrow> ([(s1, d), (s2, d)], Inl e)
         | Inr y \<Rightarrow>
      (case train_test_split sk filtered_texts y of
           Inl e \<Rightarrow> ([(s1, d), (s2, d)], Inl e)
         | Inr (X_train, X_test, y_train, y_test) \<Rightarrow>
      (let s3 = s2\<lparr>vectorizer := Some (TfidfVectorizer sk)\<rparr>
       in case fit_transform sk (TfidfVectorizer sk) X_train of
            Inl e \<Rightarrow> ([(s1, d), (s2, d), (s3, d)], Inl e)
          | Inr (v, X_train_vec) \<Rightarrow>
      (let s4 = s3\<lparr>vectorizer := Some v\<rparr>
       in case transform sk v X_test of
            Inl e \<Rightarrow> ([(s1, d), (s2, d), (s3, d), (s4, d)], Inl e)
          | Inr X_test_vec \<Rightarrow>
      (let s5 = s4\<lparr>classifier := Some (RandomForestClassifier sk)\<rparr>
       in case fit sk (RandomForestClassifier sk) X_train_vec y_train of
            Inl e \<Rightarrow> ([(s1, d), (s2, d), (s3, d), (s4, d), (s5, d)], Inl e)
          | Inr c \<Rightarrow>
      (let s6 = s5\<lparr>classifier := Some c\<rparr>;
           fitted = [(s1, d), (s2, d), (s3, d), (s4, d), (s5, d), (s6, d)]
       in case clf_predict sk c X_test_vec of
            Inl e \<Rightarrow> (fitted, Inl e)
          | Inr y_pred \<Rightarrow>
      (case accuracy_score sk y_test y_pred of
            Inl e \<Rightarrow> (fitted, Inl e)
          | Inr accuracy \<Rightarrow>
      (case classification_report sk y_test y_pred (target_names cats mapping) of
            Inl e \<Rightarrow> (fitted, Inl e)
          | Inr report \<Rightarrow>
              (fitted @ map (\<lambda>d'. (s6, d')) (fst (save_model io s6 d)),
               Inr (Success (round4 accuracy) (length filtered_texts) (length unique_labels)
                      report))))))))))"

definition train ::
  "('v, 'c, 'x, 'r) sklearn \<Rightarrow> (fname \<Rightarrow> write_outcome) \<Rightarrow> category list \<Rightarrow> txn list
     \<Rightarrow> ('v, 'c) ml_categorizer \<Rightarrow> ('v, 'c) disk \<Rightarrow> nat
     \<Rightarrow> (('v, 'c) ml_categorizer \<times> ('v, 'c) disk) list \<times> (exn + 'r train_result)" where
  "train sk io cats txns self d min_samples_per_category =
     (let (texts, labels) = get_training_data cats txns
      in if length texts < 10
         then ([], Inr (Failure ''Insufficient training data. Need at least 10 samples.''))
         else let filtered = filtered_samples texts labels min_samples_per_category
              in if length filtered < 10
                 then ([], Inr (Failure ''Insufficient samples per category.''))
                 else train_model_steps sk io cats self d filtered)"

text \<open>The state a call leaves behind, given the state before it and the states it went
  through.\<close>

definition final_state :: "'s \<Rightarrow> 's list \<Rightarrow> 's" where
  "final_state s0 steps = last (s0 # steps)"

text \<open>\<open>train_ml_model\<close>: \<open>train\<close> on the global instance, with the default minimum 2.\<close>

definition train_ml_model ::
  "('v, 'c, 'x, 'r) sklearn \<Rightarrow> (fname \<Rightarrow> write_outcome) \<Rightarrow> ('v, 'c) world
     \<Rightarrow> (exn + 'r train_result) \<times> ('v, 'c) world" where
  "train_ml_model sk io w =
     (let (categorizer, w1) = get_ml_categorizer w;
          (steps, outcome) = train sk io (categories_table w1) (transactions_table w1)
                               categorizer (models_dir w1) 2;
          (self', d') = final_state (categorizer, models_dir w1) steps
      in (outcome, w1\<lparr>ml_global := Some self', models_dir := d'\<rparr>))"

section \<open>\<open>api/ml_training.py\<close>: the status and predict endpoints\<close>

text \<open>A JSON scalar in a response.\<close>

datatype json = JInt int | JStr string

record status_body =
  is_trained :: bool
  num_categories :: nat
  categories :: "json list"

text \<open>
  \<open>model_status\<close>: what the view returns or raises. \<open>category_mapping.values()\<close> on
  \<open>None\<close> raises \<open>AttributeError\<close>; the view has no handler.
\<close>

definition model_status :: "('v, 'c) world \<Rightarrow> (exn + nat \<times> status_body) \<times> ('v, 'c) world" where
  "model_status w =
     (let (categorizer, w') = get_ml_categorizer w;
          trained = (classifier categorizer \<noteq> None);
          n = (case category_mapping categorizer of
                 None \<Rightarrow> 0
               | Some m \<Rightarrow> if m = [] then 0 else length m)
      in if trained
         then (case category_mapping categorizer of
                 None \<Rightarrow> (Inl (Exception ''AttributeError''), w')
               | Some m \<Rightarrow>
                   (Inr (200, \<lparr>is_trained = trained, num_categories = n,
                               categories = map (\<lambda>(i, cat). JInt cat) m\<rparr>), w'))
         else (Inr (200, \<lparr>is_trained = trained, num_categories = n, categories = []\<rparr>), w'))"

text \<open>
  The JSON object of a predict request. For the two texts \<open>None\<close> is an absent key or
  \<open>null\<close>; for the threshold it is an absent key. The endpoint gets \<open>None\<close> instead of
  an object when \<open>not data\<close> holds: no body, or the empty object.
\<close>

record predict_request =
  req_merchant :: "string option"
  req_description :: "string option"
  req_confidence_threshold :: "real option"

datatype predict_body =
    ErrorBody string
  | Prediction "int option" "string option" real   \<comment> \<open>\<open>category_id\<close>, \<open>category_name\<close>, \<open>confidence\<close>\<close>

text \<open>The default of the endpoint: \<open>data.get('confidence_threshold', 0.3)\<close>.\<close>

definition endpoint_threshold :: real where
  "endpoint_threshold = 0.3"

definition predict_category ::
  "('v, 'c, 'x, 'r) sklearn \<Rightarrow> ('v, 'c) world \<Rightarrow> predict_request option
     \<Rightarrow> (nat \<times> predict_body) \<times> ('v, 'c) world" where
  "predict_category sk w body =
     (case body of
        None \<Rightarrow> ((400, ErrorBody ''No data provided''), w)
      | Some data \<Rightarrow>
            (let merchant = req_merchant data;
                 description = req_description data;
                 threshold = (case req_confidence_threshold data of
                                None \<Rightarrow> endpoint_threshold
                              | Some t \<Rightarrow> t)
             in if \<not> truthy_str merchant \<and> \<not> truthy_str description
                then ((400, ErrorBody ''Either merchant or description required''), w)
                else
                  (let ((category_id, confidence), w') =
                         ml_categorize sk w merchant description threshold;
                       category_name =
                         (if truthy_id category_id
                          then (case category_id of
                                  None \<Rightarrow> None
                                | Some i \<Rightarrow> map_option cat_name (get_category (categories_table w') i))
                          else None)
                   in ((200, Prediction category_id category_name (round4 confidence)), w'))))"

section \<open>The claims in the specification's words\<close>

text \<open>
  The decision order the specification gives for \<open>categorize\<close>: after the three rule
  attempts the classifier model is asked about the merchant text, the description text
  and their concatenation (\<open>ml_categorize\<close>), and only then comes \<open>Uncategorized\<close>.
\<close>

definition categorize_claimed ::
  "re_lib \<Rightarrow> ('v, 'c, 'x, 'r) sklearn \<Rightarrow> ('v, 'c) world \<Rightarrow> string option \<Rightarrow> string option
     \<Rightarrow> exn + int option" where
  "categorize_claimed re sk w merchant description =
     (let primary_text = strip (lower (or_empty merchant));
          secondary_text = strip (lower (or_empty description))
      in case try_rules re (rules_table w) primary_text of
           Inl e \<Rightarrow> Inl e
         | Inr (Some c) \<Rightarrow> Inr (Some c)
         | Inr None \<Rightarrow>
             (case try_rules re (rules_table w) secondary_text of
                Inl e \<Rightarrow> Inl e
              | Inr (Some c) \<Rightarrow> Inr (Some c)
              | Inr None \<Rightarrow>
                  (case try_rules re (rules_table w)
                          (strip (primary_text @ '' '' @ secondary_text)) of
                     Inl e \<Rightarrow> Inl e
                   | Inr (Some c) \<Rightarrow> Inr (Some c)
                   | Inr None \<Rightarrow>
                       (let category_id =
                              fst (fst (ml_categorize sk w merchant description default_threshold))
                        in if truthy_id category_id then Inr category_id
                           else case first_by_name (categories_table w) ''Uncategorized'' of
                                  Some uncategorized \<Rightarrow> Inr (Some (cat_id uncategorized))
                                | None \<Rightarrow> Inr None))))"

text \<open>
  The swap the specification asks of \<open>train\<close>: in every state a reader can observe, the
  instance is the old one, or it is the new one and the directory already holds what the
  call leaves there.
\<close>

definition atomic_swap :: "('m \<times> 'd) \<Rightarrow> ('m \<times> 'd) list \<Rightarrow> bool" where
  "atomic_swap s0 steps =
     list_all (\<lambda>(m, d). m = fst s0 \<or> (m = fst (final_state s0 steps) \<and> d = snd (final_state s0 steps)))
              steps"

text \<open>The \<open>categoryNames\<close> of the specification's \<open>modelStatus\<close>: the names of the
  categories in the label mapping.\<close>

definition category_names_claimed :: "category list \<Rightarrow> (nat \<times> int) list \<Rightarrow> json list" where
  "category_names_claimed cats m =
     List.map_filter (\<lambda>(i, cat). map_option (\<lambda>c. JStr (cat_name c)) (get_category cats cat)) m"

section \<open>Predicates used in the statements\<close>

text \<open>A rule whose \<open>match_type\<close> is \<open>regex\<close> and whose pattern the library rejects with
  \<open>re.error\<close>.\<close>

definition malformed :: "re_lib \<Rightarrow> categorization_rule \<Rightarrow> string \<Rightarrow> bool" where
  "malformed re rule text =
     (match_type rule = ''regex'' \<and> re (lower (pattern rule)) text = Inl re_error)"

text \<open>The library raises nothing but \<open>re.error\<close> on the regex rules of a table.\<close>

definition only_re_error :: "re_lib \<Rightarrow> categorization_rule list \<Rightarrow> string \<Rightarrow> bool" where
  "only_re_error re rules text =
     list_all (\<lambda>rule. match_type rule = ''regex'' \<longrightarrow>
                 (case re (lower (pattern rule)) text of
                    Inl e \<Rightarrow> e = re_error
                  | Inr m \<Rightarrow> True))
              rules"

text \<open>The classifier returns probabilities.\<close>

definition proba_in_unit :: "('v, 'c, 'x, 'r) sklearn \<Rightarrow> bool" where
  "proba_in_unit sk =
     (\<forall>c X rows. predict_proba sk c X = Inr rows \<longrightarrow>
        (\<forall>row \<in> set rows. \<forall>p \<in> set row. 0 \<le> p \<and> p \<le> 1))"

section \<open>Small instances of the libraries, for concrete runs\<close>

text \<open>
  A stand-in for scikit-learn: the vectorizer and the classifier are \<open>0\<close> when new and
  \<open>1\<close> when fitted, a feature matrix is the list of texts, and the classifier predicts
  the given row of probabilities for every text.
\<close>

definition toy_sklearn :: "real list \<Rightarrow> (nat, nat, string list, unit) sklearn" where
  "toy_sklearn row =
     \<lparr> train_test_split = (\<lambda>X y. Inr (X, X, y, y)),
       TfidfVectorizer = 0,
       fit_transform = (\<lambda>v X. Inr (1, X)),
       transform = (\<lambda>v X. if v = 0 then Inl (Exception ''NotFittedError'') else Inr X),
       RandomForestClassifier = 0,
       fit = (\<lambda>c X y. Inr 1),
       clf_predict = (\<lambda>c X. Inr (map (\<lambda>t. 0) X)),
       predict_proba = (\<lambda>c X. Inr (map (\<lambda>t. row) X)),
       accuracy_score = (\<lambda>y_true y_pred. Inr 1),
       classification_report = (\<lambda>y_true y_pred names. Inr ()) \<rparr>"

text \<open>
  Three facts about \<open>re.search\<close> in CPython: a pattern of plain letters and spaces is
  found where it occurs as a substring; \<open>(\<close> is rejected with \<open>re.error\<close>; a repetition
  count of \<open>MAXREPEAT\<close> (4294967295) is rejected with \<open>OverflowError\<close>, which is not
  a subclass of \<open>re.error\<close>. The instance is meant for these patterns only.
\<close>

definition re_sample :: re_lib where
  "re_sample pat text =
     (if pat = ''a{4294967295}'' then Inl (Exception ''OverflowError'')
      else if pat = ''('' then Inl re_error
      else Inr (contains pat (lower text)))"

text \<open>A categorizer holding a fitted toy model over the categories 7 and 8.\<close>

definition toy_model :: "(nat, nat) ml_categorizer" where
  "toy_model = \<lparr>vectorizer = Some 1, classifier = Some 1,
                 category_mapping = Some [(0, 7), (1, 8)],
                 reverse_mapping = Some [(7, 0), (8, 1)]\<rparr>"

definition no_model :: "(nat, nat) ml_categorizer" where
  "no_model = blank_categorizer"

definition empty_dir :: "(nat, nat) disk" where
  "empty_dir = \<lparr>vectorizer_pkl = Absent, classifier_pkl = Absent, category_mapping_pkl = Absent\<rparr>"

text \<open>A database with two categories, no rule, and six transactions in each category.\<close>

definition toy_categories :: "category list" where
  "toy_categories = [\<lparr>cat_id = 7, cat_name = ''Books''\<rparr>, \<lparr>cat_id = 8, cat_name = ''Toys''\<rparr>,
                     \<lparr>cat_id = 9, cat_name = ''Uncategorized''\<rparr>]"

definition toy_txn :: "string \<Rightarrow> int \<Rightarrow> txn" where
  "toy_txn text label = \<lparr>txn_merchant = None, txn_description = Some text,
                          txn_category_id = Some label, txn_deleted = False\<rparr>"

definition toy_transactions :: "txn list" where
  "toy_transactions = replicate 6 (toy_txn ''novel'' 7) @ replicate 6 (toy_txn ''lego'' 8)"

definition toy_world :: "(nat, nat) world" where
  "toy_world = \<lparr>rules_table = [], categories_table = toy_categories,
                 transactions_table = toy_transactions, ml_global = Some toy_model,
                 models_dir = empty_dir\<rparr>"

text \<open>Four rules: two that match by substring, one the library rejects, one it
  overflows on; and a table of them.\<close>

definition coffee_rule :: categorization_rule where
  "coffee_rule = \<lparr>pattern = ''Coffee'', match_type = ''contains'', category_id = 3, priority = 5\<rparr>"

definition shop_rule :: categorization_rule where
  "shop_rule = \<lparr>pattern = ''shop'', match_type = ''regex'', category_id = 4, priority = 2\<rparr>"

definition span_rule :: categorization_rule where
  "span_rule = \<lparr>pattern = ''bakery main'', match_type = ''contains'', category_id = 5,
                 priority = 1\<rparr>"

definition bad_rule :: categorization_rule where
  "bad_rule = \<lparr>pattern = ''('', match_type = ''regex'', category_id = 1, priority = 9\<rparr>"

definition overflow_rule :: categorization_rule where
  "overflow_rule = \<lparr>pattern = ''a{4294967295}'', match_type = ''regex'', category_id = 1,
                     priority = 0\<rparr>"

definition toy_rules :: "categorization_rule list" where
  "toy_rules = [shop_rule, bad_rule, coffee_rule, span_rule]"

definition rule_world :: "(nat, nat) world" where
  "rule_world = toy_world\<lparr>rules_table := toy_rules\<rparr>"

text \<open>An older fitted model, over category 3 alone; a directory whose mapping file cannot
  be read; and the samples that \<open>get_training_data\<close> draws from \<open>toy_transactions\<close>.\<close>

definition old_model :: "(nat, nat) ml_categorizer" where
  "old_model = \<lparr>vectorizer = Some 5, classifier = Some 5, category_mapping = Some [(0, 3)],
                reverse_mapping = Some [(3, 0)]\<rparr>"

definition garbled_dir :: "(nat, nat) disk" where
  "garbled_dir = \<lparr>vectorizer_pkl = Pickle 1, classifier_pkl = Pickle 1,
                   category_mapping_pkl = Garbage\<rparr>"

definition toy_data :: "(string \<times> int) list" where
  "toy_data = replicate 6 (''novel'', 7) @ replicate 6 (''lego'', 8)"

section \<open>Proofs\<close>

subsection \<open>Regular expressions\<close>

lemma rep_length:
  "(pv', s') \<in> set (rep k m n (pv, s)) \<Longrightarrow> length s' + m \<le> length s"
proof (induction s arbitrary: pv m n)
  case Nil
  then show ?case by (auto split: if_splits)
next
  case (Cons c cs)
  from Cons.prems show ?case
    by (auto split: if_splits dest!: Cons.IH)
qed

lemma ms_length:
  "(pv', s') \<in> set (ms r (pv, s)) \<Longrightarrow> length s' + min_len r \<le> length s"
proof (induction r arbitrary: pv s pv' s')
  case (Cat a b)
  from Cat.prems obtain pm sm where m: "(pm, sm) \<in> set (ms a (pv, s))"
    and e: "(pv', s') \<in> set (ms b (pm, sm))"
    by auto
  from Cat.IH(1)[OF m] Cat.IH(2)[OF e] show ?case by simp
next
  case (Alt a b)
  then show ?case by fastforce
qed (auto split: list.splits if_splits dest: rep_length)

lemma patterns_nonempty:
  "\<forall>r \<in> set (prefixes_to_remove @ noise_patterns). 0 < min_len r"
  by (simp add: prefixes_to_remove_def noise_patterns_def seq_def lit_def star_def plus1_def opt_def)

lemma sub_from_no_match:
  "\<not> search_from r (pv, s) \<Longrightarrow> sub_from r rp (pv, s) = s"
  by (induction s arbitrary: pv) auto

lemma re_sub_no_match: "\<not> re_search r s \<Longrightarrow> re_sub r rp s = s"
  by (simp add: re_search_def re_sub_def sub_from_no_match)

lemma fold_re_sub_no_match:
  "\<forall>p \<in> set ps. \<not> re_search p s \<Longrightarrow> fold (\<lambda>p t. re_sub p rp t) ps s = s"
  by (induction ps) (auto simp: re_sub_no_match)

subsection \<open>Splitting, joining and the canonical form\<close>

lemma space_is_space: "is_space CHR '' ''"
  by (simp add: is_space_def)

lemma split_acc_tokens:
  "\<forall>c \<in> set w0. \<not> is_space c \<Longrightarrow> w \<in> set (split_acc s w0) \<Longrightarrow> is_token w"
proof (induction s arbitrary: w0)
  case Nil
  then show ?case by (simp add: is_token_def split: if_splits)
next
  case (Cons c cs)
  show ?case
  proof (cases "is_space c")
    case True
    with Cons.prems have "w = w0 \<and> w0 \<noteq> [] \<or> w \<in> set (split_acc cs [])"
      by (simp split: if_splits)
    then show ?thesis
      using Cons.prems(1) Cons.IH [of "[]"] by (auto simp: is_token_def)
  next
    case False
    with Cons.prems have "w \<in> set (split_acc cs (w0 @ [c]))" by simp
    moreover have "\<forall>d \<in> set (w0 @ [c]). \<not> is_space d"
      using False Cons.prems(1) by simp
    ultimately show ?thesis using Cons.IH by blast
  qed
qed

lemma split_acc_chars:
  "w \<in> set (split_acc s w0) \<Longrightarrow> set w \<subseteq> set s \<union> set w0"
proof (induction s arbitrary: w0)
  case Nil
  then show ?case by (simp split: if_splits)
next
  case (Cons c cs)
  show ?case
  proof (cases "is_space c")
    case True
    with Cons.prems have "w = w0 \<or> w \<in> set (split_acc cs [])"
      by (simp split: if_splits)
    then show ?thesis
      using Cons.IH [of "[]"] by auto
  next
    case False
    with Cons.prems have "w \<in> set (split_acc cs (w0 @ [c]))" by simp
    then show ?thesis using Cons.IH [of "w0 @ [c]"] by auto
  qed
qed

lemma split_acc_word:
  "\<forall>c \<in> set w. \<not> is_space c \<Longrightarrow> split_acc (w @ s) w0 = split_acc s (w0 @ w)"
  by (induction w arbitrary: w0) auto

lemma split_acc_join:
  "\<forall>w \<in> set ws. is_token w \<Longrightarrow> ws \<noteq> [] \<Longrightarrow>
   split_acc (join_sp ws) w0 = (w0 @ hd ws) # tl ws"
proof (induction ws arbitrary: w0 rule: join_sp.induct)
  case 1
  then show ?case by simp
next
  case (2 w)
  then show ?case
    using split_acc_word [of w "[]" w0] by (simp add: is_token_def)
next
  case (3 w v vs)
  have "split_acc (join_sp (w # v # vs)) w0 = split_acc (CHR '' '' # join_sp (v # vs)) (w0 @ w)"
    using 3 split_acc_word [of w "CHR '' '' # join_sp (v # vs)" w0] by (simp add: is_token_def)
  also have "\<dots> = (w0 @ w) # split_acc (join_sp (v # vs)) []"
    using 3 by (simp add: space_is_space is_token_def)
  also have "\<dots> = (w0 @ w) # v # vs"
    using 3 by simp
  finally show ?case by simp
qed

lemma split_join: "\<forall>w \<in> set ws. is_token w \<Longrightarrow> split (join_sp ws) = ws"
  by (cases "ws = []") (simp_all add: split_def split_acc_join)

lemma join_sp_hd: "\<forall>w \<in> set ws. is_token w \<Longrightarrow> ws \<noteq> [] \<Longrightarrow>
   join_sp ws \<noteq> [] \<and> \<not> is_space (hd (join_sp ws)) \<and> \<not> is_space (last (join_sp ws))"
  by (induction ws rule: join_sp.induct) (auto simp: is_token_def)

lemma dropWhile_hd: "s \<noteq> [] \<Longrightarrow> \<not> P (hd s) \<Longrightarrow> dropWhile P s = s"
  by (cases s) auto

lemma strip_id: "s \<noteq> [] \<Longrightarrow> \<not> is_space (hd s) \<Longrightarrow> \<not> is_space (last s) \<Longrightarrow> strip s = s"
  by (simp add: strip_def dropWhile_hd hd_rev)

lemma strip_join: "\<forall>w \<in> set ws. is_token w \<Longrightarrow> strip (join_sp ws) = join_sp ws"
proof (cases "ws = []")
  case True
  then show ?thesis by (simp add: strip_def)
next
  case False
  assume "\<forall>w \<in> set ws. is_token w"
  with False show ?thesis using join_sp_hd [of ws] strip_id by blast
qed

lemma set_join_sp: "set (join_sp ws) \<subseteq> \<Union> (set ` set ws) \<union> {CHR '' ''}"
  by (induction ws rule: join_sp.induct) auto

lemma lower_char_id: "\<not> is_AZ c \<Longrightarrow> lower_char c = c"
proof -
  assume "\<not> is_AZ c"
  then have "map_of (zip ''ABCDEFGHIJKLMNOPQRSTUVWXYZ'' ''abcdefghijklmnopqrstuvwxyz'') c = None"
    unfolding is_AZ_def by (subst map_of_zip_is_None) simp_all
  then show ?thesis by (simp only: lower_char_def option.case)
qed

lemma keep_not_AZ: "keep_char c \<Longrightarrow> \<not> is_AZ c"
  by (auto simp: keep_char_def is_az_def is_digit_def is_space_def is_AZ_def)

lemma lower_keep: "\<forall>c \<in> set s. keep_char c \<Longrightarrow> lower s = s"
  by (simp add: lower_def map_idI lower_char_id keep_not_AZ)

lemma keep_remove_special: "\<forall>c \<in> set s. keep_char c \<Longrightarrow> remove_special s = s"
  by (simp add: remove_special_def map_idI)

lemma remove_special_keeps: "\<forall>c \<in> set (remove_special s). keep_char c"
  by (auto simp: remove_special_def keep_char_def space_is_space)


lemma keep_space: "keep_char CHR '' ''"
  by (simp add: keep_char_def space_is_space)

lemma split_tokens: "w \<in> set (split s) \<Longrightarrow> is_token w"
  using split_acc_tokens [of "[]" w s] by (simp add: split_def)

lemma tidy_join: "tidy t = join_sp (split (remove_special t))"
  by (simp add: tidy_def strip_join split_tokens)

lemma tidy_keep: "c \<in> set (tidy t) \<Longrightarrow> keep_char c"
proof -
  assume c: "c \<in> set (tidy t)"
  then have "c \<in> \<Union> (set ` set (split (remove_special t))) \<union> {CHR '' ''}"
    using set_join_sp [of "split (remove_special t)"] by (auto simp: tidy_join)
  then show ?thesis
    using split_acc_chars [of _ "remove_special t" "[]"] remove_special_keeps [of t]
    by (auto simp: split_def keep_space)
qed

lemma tidy_fixed: "tidy (tidy t) = tidy t"
proof -
  have "remove_special (tidy t) = tidy t"
    by (simp add: keep_remove_special tidy_keep)
  then have "tidy (tidy t) = strip (join_sp (split (tidy t)))"
    by (simp add: tidy_def)
  also have "\<dots> = strip (join_sp (split (remove_special t)))"
    by (simp add: tidy_join split_join split_tokens)
  finally show ?thesis by (simp add: tidy_def)
qed

lemma preprocess_text_tidy:
  "preprocess_text x = [] \<or> (\<exists>t. preprocess_text x = tidy t)"
  by (auto simp: preprocess_text_def tidy_def Let_def)


subsection \<open>C4: is \<open>preprocess_text\<close> idempotent?\<close>

text \<open>
  C4, as the specification states it, fails: the prefix patterns are applied once each,
  so a text that carries the same prefix twice loses one copy per pass.
  \<open>webweb\<close> is processed to \<open>web\<close>, and \<open>web\<close> to the empty string.
\<close>

theorem preprocess_text_not_idempotent:
  "preprocess_text (preprocess_text ''webweb'') \<noteq> preprocess_text ''webweb''"
  by code_simp

text \<open>
  C4, amended: a second pass changes nothing whenever none of the prefix and noise
  patterns is found in the result of the first pass.
\<close>

theorem preprocess_text_idempotent_when_clean:
  assumes "\<forall>p \<in> set (prefixes_to_remove @ noise_patterns). \<not> re_search p (preprocess_text x)"
  shows "preprocess_text (preprocess_text x) = preprocess_text x"
proof (cases "preprocess_text x = []")
  case True
  then show ?thesis by (simp add: preprocess_text_def)
next
  case False
  then obtain t where y: "preprocess_text x = tidy t"
    using preprocess_text_tidy [of x] by auto
  let ?y = "tidy t"
  have l: "lower ?y = ?y"
    by (simp add: lower_keep tidy_keep)
  have p: "fold (\<lambda>p t. re_sub p [] t) prefixes_to_remove ?y = ?y"
    using assms by (simp add: fold_re_sub_no_match y)
  have n: "fold (\<lambda>p t. re_sub p '' '' t) noise_patterns ?y = ?y"
    using assms by (simp add: fold_re_sub_no_match y)
  from False y have ne: "?y \<noteq> []" by simp
  have "preprocess_text ?y = strip (join_sp (split (remove_special ?y)))"
    using ne by (simp add: preprocess_text_def Let_def l p n)
  then have "preprocess_text ?y = tidy ?y"
    by (simp only: tidy_def [of ?y])
  then show ?thesis by (simp add: y tidy_fixed)
qed

theorem preprocess_text_idempotent_when_clean_witness:
  "list_all (\<lambda>p. \<not> re_search p (preprocess_text ''Starbucks #12''))
     (prefixes_to_remove @ noise_patterns)
   \<and> preprocess_text (preprocess_text ''Starbucks #12'') = preprocess_text ''Starbucks #12''"
proof -
  have c: "list_all (\<lambda>p. \<not> re_search p (preprocess_text ''Starbucks #12''))
             (prefixes_to_remove @ noise_patterns)"
    by code_simp
  then have h: "\<forall>p \<in> set (prefixes_to_remove @ noise_patterns).
                  \<not> re_search p (preprocess_text ''Starbucks #12'')"
    by (simp only: list_all_iff)
  show ?thesis
    using c preprocess_text_idempotent_when_clean [OF h] by simp
qed

subsection \<open>The rule engine\<close>

lemma rule_match_malformed: "malformed re rule text \<Longrightarrow> rule_match re rule text = Inr False"
  by (simp add: malformed_def rule_match_def)

lemma scan_rules_filter_malformed:
  "scan_rules re (filter (\<lambda>r. \<not> malformed re r text) rules) text = scan_rules re rules text"
  by (induction rules) (auto simp: rule_match_malformed split: sum.splits)

lemma order_filter:
  "filter P (order_by_priority_desc rules) = order_by_priority_desc (filter P rules)"
  by (simp add: order_by_priority_desc_def filter_sort)

lemma rule_based_categorize_filter_malformed:
  "rule_based_categorize re (filter (\<lambda>r. \<not> malformed re r text) rules) text
     = rule_based_categorize re rules text"
  by (simp add: rule_based_categorize_def order_filter [symmetric] scan_rules_filter_malformed)

lemma rule_based_categorize_drop_malformed:
  assumes "malformed re rule text"
  shows "rule_based_categorize re (xs @ rule # ys) text = rule_based_categorize re (xs @ ys) text"
proof -
  have "filter (\<lambda>r. \<not> malformed re r text) (xs @ rule # ys)
          = filter (\<lambda>r. \<not> malformed re r text) (xs @ ys)"
    using assms by simp
  then show ?thesis
    using rule_based_categorize_filter_malformed [of re "text" "xs @ rule # ys"]
          rule_based_categorize_filter_malformed [of re "text" "xs @ ys"]
    by simp
qed

lemma rule_match_total:
  "match_type rule = ''regex'' \<longrightarrow> (case re (lower (pattern rule)) text of Inl e \<Rightarrow> e = re_error | Inr m \<Rightarrow> True)
   \<Longrightarrow> \<exists>m. rule_match re rule text = Inr m"
  by (auto simp: rule_match_def Let_def split: sum.splits)

lemma scan_rules_total:
  "only_re_error re rules text \<Longrightarrow> \<exists>r. scan_rules re rules text = Inr r"
proof (induction rules)
  case Nil
  then show ?case by simp
next
  case (Cons rule rules)
  then obtain m where "rule_match re rule text = Inr m"
    using rule_match_total [of rule re "text"] by (auto simp: only_re_error_def)
  moreover from Cons obtain r where "scan_rules re rules text = Inr r"
    by (auto simp: only_re_error_def)
  ultimately show ?case by simp
qed

lemma only_re_error_order:
  "only_re_error re (order_by_priority_desc rules) text = only_re_error re rules text"
  by (simp add: only_re_error_def list_all_iff order_by_priority_desc_def)

lemma scan_rules_none:
  "\<forall>rule \<in> set rules. rule_match re rule text = Inr False \<Longrightarrow> scan_rules re rules text = Inr None"
  by (induction rules) simp_all

lemma scan_rules_some:
  "scan_rules re rules text = Inr (Some c) \<Longrightarrow>
   \<exists>pre rule post. rules = pre @ rule # post \<and> category_id rule = c
      \<and> rule_match re rule text = Inr True
      \<and> (\<forall>r \<in> set pre. rule_match re r text = Inr False)"
proof (induction rules)
  case Nil
  then show ?case by simp
next
  case (Cons r rules)
  show ?case
  proof (cases "rule_match re r text")
    case (Inl e)
    with Cons.prems show ?thesis by simp
  next
    case (Inr m)
    show ?thesis
    proof (cases m)
      case True
      with Inr Cons.prems have "category_id r = c" by simp
      with Inr True show ?thesis by (intro exI [of _ "[]"] exI [of _ r] exI [of _ rules]) simp
    next
      case False
      with Inr Cons.prems have "scan_rules re rules text = Inr (Some c)" by simp
      from Cons.IH [OF this] obtain pre rule post where
        "rules = pre @ rule # post" "category_id rule = c" "rule_match re rule text = Inr True"
        "\<forall>r \<in> set pre. rule_match re r text = Inr False"
        by blast
      with Inr False show ?thesis
        by (intro exI [of _ "r # pre"] exI [of _ rule] exI [of _ post]) simp
    qed
  qed
qed

lemma sorted_desc: "sorted (map (\<lambda>r. - priority r) (order_by_priority_desc rules))"
  by (simp add: order_by_priority_desc_def)

lemma winner_has_top_priority:
  assumes "rule_based_categorize re rules text = Inr (Some c)"
  shows "\<exists>rule \<in> set rules. category_id rule = c \<and> rule_match re rule text = Inr True
           \<and> (\<forall>r \<in> set rules. rule_match re r text = Inr True \<longrightarrow> priority r \<le> priority rule)"
proof -
  from assms obtain pre rule post where
    split: "order_by_priority_desc rules = pre @ rule # post" and
    c: "category_id rule = c" and m: "rule_match re rule text = Inr True" and
    pre: "\<forall>r \<in> set pre. rule_match re r text = Inr False"
    using scan_rules_some [of re "order_by_priority_desc rules" "text" c]
    by (auto simp: rule_based_categorize_def)
  have mem: "set rules = set pre \<union> {rule} \<union> set post"
    using split by (metis order_by_priority_desc_def set_sort set_append list.simps(15) Un_insert_right Un_assoc sup_bot.right_neutral insert_is_Un)
  have "sorted (map (\<lambda>r. - priority r) (pre @ rule # post))"
    using sorted_desc [of rules] split by simp
  then have post: "\<forall>r \<in> set post. priority r \<le> priority rule"
    by (auto simp: sorted_append)
  have "\<forall>r \<in> set rules. rule_match re r text = Inr True \<longrightarrow> priority r \<le> priority rule"
    using mem pre post by auto
  moreover have "rule \<in> set rules" using mem by simp
  ultimately show ?thesis using c m by blast
qed

lemma scan_rules_prefix:
  "\<forall>r \<in> set pre. rule_match re r text = Inr False \<Longrightarrow>
   scan_rules re (pre @ rest) text = scan_rules re rest text"
  by (induction pre) simp_all

lemma scan_rules_Inl:
  "scan_rules re rules text = Inl e \<Longrightarrow> \<exists>rule \<in> set rules. rule_match re rule text = Inl e"
proof (induction rules)
  case Nil
  then show ?case by simp
next
  case (Cons r rules)
  show ?case
  proof (cases "rule_match re r text")
    case (Inl x)
    with Cons.prems show ?thesis by simp
  next
    case (Inr m)
    with Cons.prems have "scan_rules re rules text = Inl e"
      by (cases m) simp_all
    with Cons.IH show ?thesis by simp
  qed
qed

lemma rule_match_Inl:
  "rule_match re rule text = Inl e \<Longrightarrow>
   match_type rule = ''regex'' \<and> re (lower (pattern rule)) text = Inl e \<and> e \<noteq> re_error"
  by (auto simp: rule_match_def Let_def split: if_splits sum.splits)

lemma rule_match_raise:
  "match_type rule = ''regex'' \<Longrightarrow> re (lower (pattern rule)) text = Inl e \<Longrightarrow> e \<noteq> re_error \<Longrightarrow>
   rule_match re rule text = Inl e"
  by (simp add: rule_match_def Let_def)

lemma scan_rules_None_all:
  "scan_rules re rules text = Inr None \<Longrightarrow> \<forall>r \<in> set rules. rule_match re r text = Inr False"
proof (induction rules)
  case Nil
  then show ?case by simp
next
  case (Cons r rules)
  show ?case
  proof (cases "rule_match re r text")
    case (Inl x)
    with Cons.prems show ?thesis by simp
  next
    case (Inr m)
    with Cons.prems have "m = False \<and> scan_rules re rules text = Inr None"
      by (cases m) simp_all
    with Cons.IH Inr show ?thesis by simp
  qed
qed

lemma match_yields_category:
  assumes "only_re_error re rules text" and "\<exists>r \<in> set rules. rule_match re r text = Inr True"
  shows "\<exists>c. rule_based_categorize re rules text = Inr (Some c)"
proof -
  let ?sorted = "order_by_priority_desc rules"
  from assms(1) obtain r where r: "scan_rules re ?sorted text = Inr r"
    using scan_rules_total [of re ?sorted "text"] by (auto simp: only_re_error_order)
  have "r \<noteq> None"
  proof
    assume "r = None"
    with r have "\<forall>x \<in> set ?sorted. rule_match re x text = Inr False"
      using scan_rules_None_all by blast
    then have "\<forall>x \<in> set rules. rule_match re x text = Inr False"
      by (simp add: order_by_priority_desc_def)
    with assms(2) show False by auto
  qed
  with r show ?thesis by (auto simp: rule_based_categorize_def)
qed

lemma first_decides:
  assumes "order_by_priority_desc rules = pre @ rule # post"
    and "\<forall>r \<in> set pre. rule_match re r text = Inr False"
  shows "rule_based_categorize re rules text
           = (case rule_match re rule text of
                Inl e \<Rightarrow> Inl e
              | Inr m \<Rightarrow> if m then Inr (Some (category_id rule)) else scan_rules re post text)"
  using assms scan_rules_prefix [of pre re "text" "rule # post"]
  by (simp add: rule_based_categorize_def)

lemma raise_has_cause:
  assumes "rule_based_categorize re rules text = Inl e"
  shows "e \<noteq> re_error \<and> (\<exists>rule \<in> set rules. match_type rule = ''regex''
            \<and> re (lower (pattern rule)) text = Inl e)"
proof -
  from assms obtain rule where "rule \<in> set (order_by_priority_desc rules)"
      and "rule_match re rule text = Inl e"
    using scan_rules_Inl [of re "order_by_priority_desc rules" "text" e]
    by (auto simp: rule_based_categorize_def)
  then show ?thesis
    using rule_match_Inl [of re rule "text" e] by (auto simp: order_by_priority_desc_def)
qed

lemma scan_rules_Inl_split:
  "scan_rules re rules text = Inl e \<Longrightarrow>
   \<exists>pre hit post. rules = pre @ hit # post
      \<and> (\<forall>r \<in> set pre. rule_match re r text = Inr False)
      \<and> rule_match re hit text = Inl e"
proof (induction rules)
  case Nil
  then show ?case by simp
next
  case (Cons r rules)
  show ?case
  proof (cases "rule_match re r text")
    case (Inl x)
    with Cons.prems have "x = e" by simp
    with Inl show ?thesis
      by (intro exI [of _ "[]"] exI [of _ r] exI [of _ rules]) simp
  next
    case (Inr m)
    with Cons.prems have f: "m = False" and "scan_rules re rules text = Inl e"
      by (cases m; simp)+
    from Cons.IH [OF this(2)] obtain pre hit post where
      "rules = pre @ hit # post" "\<forall>r \<in> set pre. rule_match re r text = Inr False"
      "rule_match re hit text = Inl e"
      by blast
    with Inr f show ?thesis
      by (intro exI [of _ "r # pre"] exI [of _ hit] exI [of _ post]) simp
  qed
qed

lemma raise_is_reached:
  assumes "rule_based_categorize re rules text = Inl e"
  shows "\<exists>pre hit post. order_by_priority_desc rules = pre @ hit # post
      \<and> (\<forall>r \<in> set pre. rule_match re r text = Inr False)
      \<and> match_type hit = ''regex'' \<and> re (lower (pattern hit)) text = Inl e"
proof -
  from assms obtain pre hit post where
    "order_by_priority_desc rules = pre @ hit # post"
    "\<forall>r \<in> set pre. rule_match re r text = Inr False"
    "rule_match re hit text = Inl e"
    using scan_rules_Inl_split [of re "order_by_priority_desc rules" "text" e]
    by (auto simp: rule_based_categorize_def)
  then show ?thesis
    using rule_match_Inl [of re hit "text" e] by blast
qed

subsection \<open>C8: the rule scan\<close>

text \<open>
  C8, as the specification states it, fails in one point: \<open>rule_based_categorize\<close>
  catches \<open>re.error\<close> and nothing else, so an exception of another class raised by
  \<open>re.search\<close> leaves the function. CPython raises \<open>OverflowError\<close> for the pattern
  \<open>a{4294967295}\<close>.
\<close>

theorem rule_based_categorize_raises:
  "rule_based_categorize re_sample [overflow_rule] ''coffee'' = Inl (Exception ''OverflowError'')"
  by code_simp

text \<open>
  C8, amended: the rules are scanned by descending priority, and the first rule that
  matches decides: its category is returned. A regex rule whose pattern is rejected with
  \<open>re.error\<close> is skipped, and the result is that of the table without the rule. An
  exception of another class that \<open>re.search\<close> raises on a regex rule leaves the scan
  when no rule before it matches, and the scan raises nothing else: when \<open>re.error\<close> is
  the only exception the library raises on the table's patterns, the scan does not raise,
  and then some matching rule yields a category. When no rule matches, the result is no
  category; a category that is returned belongs to a matching rule whose priority no
  matching rule exceeds.
\<close>

theorem rule_based_categorize_contract:
  "(malformed re rule text \<longrightarrow>
      rule_based_categorize re (xs @ rule # ys) text = rule_based_categorize re (xs @ ys) text)
   \<and> (only_re_error re rules text \<longrightarrow> (\<exists>r. rule_based_categorize re rules text = Inr r))
   \<and> ((\<forall>r \<in> set rules. rule_match re r text = Inr False) \<longrightarrow>
         rule_based_categorize re rules text = Inr None)
   \<and> (rule_based_categorize re rules text = Inr (Some c) \<longrightarrow>
         (\<exists>rule \<in> set rules. category_id rule = c \<and> rule_match re rule text = Inr True
            \<and> (\<forall>r \<in> set rules. rule_match re r text = Inr True \<longrightarrow> priority r \<le> priority rule)))
   \<and> (only_re_error re rules text \<and> (\<exists>r \<in> set rules. rule_match re r text = Inr True) \<longrightarrow>
         (\<exists>k. rule_based_categorize re rules text = Inr (Some k)))
   \<and> (order_by_priority_desc rules = pre @ hit # post
        \<and> (\<forall>r \<in> set pre. rule_match re r text = Inr False)
        \<and> rule_match re hit text = Inr True \<longrightarrow>
         rule_based_categorize re rules text = Inr (Some (category_id hit)))
   \<and> (order_by_priority_desc rules = pre @ hit # post
        \<and> (\<forall>r \<in> set pre. rule_match re r text = Inr False)
        \<and> match_type hit = ''regex'' \<and> re (lower (pattern hit)) text = Inl e \<and> e \<noteq> re_error \<longrightarrow>
         rule_based_categorize re rules text = Inl e)
   \<and> (rule_based_categorize re rules text = Inl e \<longrightarrow>
         e \<noteq> re_error \<and> (\<exists>rule \<in> set rules. match_type rule = ''regex''
            \<and> re (lower (pattern rule)) text = Inl e)
         \<and> (\<exists>before raising after. order_by_priority_desc rules = before @ raising # after
              \<and> (\<forall>r \<in> set before. rule_match re r text = Inr False)
              \<and> match_type raising = ''regex'' \<and> re (lower (pattern raising)) text = Inl e))"
proof (intro conjI impI)
  assume "malformed re rule text"
  then show "rule_based_categorize re (xs @ rule # ys) text = rule_based_categorize re (xs @ ys) text"
    by (rule rule_based_categorize_drop_malformed)
next
  assume "only_re_error re rules text"
  then show "\<exists>r. rule_based_categorize re rules text = Inr r"
    by (simp add: rule_based_categorize_def scan_rules_total only_re_error_order)
next
  assume "\<forall>r \<in> set rules. rule_match re r text = Inr False"
  then show "rule_based_categorize re rules text = Inr None"
    by (simp add: rule_based_categorize_def scan_rules_none order_by_priority_desc_def)
next
  assume "rule_based_categorize re rules text = Inr (Some c)"
  then show "\<exists>rule \<in> set rules. category_id rule = c \<and> rule_match re rule text = Inr True
            \<and> (\<forall>r \<in> set rules. rule_match re r text = Inr True \<longrightarrow> priority r \<le> priority rule)"
    by (rule winner_has_top_priority)
next
  assume "only_re_error re rules text \<and> (\<exists>r \<in> set rules. rule_match re r text = Inr True)"
  then show "\<exists>k. rule_based_categorize re rules text = Inr (Some k)"
    using match_yields_category by blast
next
  assume "order_by_priority_desc rules = pre @ hit # post
        \<and> (\<forall>r \<in> set pre. rule_match re r text = Inr False)
        \<and> rule_match re hit text = Inr True"
  then show "rule_based_categorize re rules text = Inr (Some (category_id hit))"
    using first_decides [of rules pre hit post re "text"] by simp
next
  assume a: "order_by_priority_desc rules = pre @ hit # post
        \<and> (\<forall>r \<in> set pre. rule_match re r text = Inr False)
        \<and> match_type hit = ''regex'' \<and> re (lower (pattern hit)) text = Inl e \<and> e \<noteq> re_error"
  then have "rule_match re hit text = Inl e" by (simp add: rule_match_raise)
  with a show "rule_based_categorize re rules text = Inl e"
    using first_decides [of rules pre hit post re "text"] by simp
next
  assume "rule_based_categorize re rules text = Inl e"
  then show "e \<noteq> re_error" and "\<exists>rule \<in> set rules. match_type rule = ''regex''
            \<and> re (lower (pattern rule)) text = Inl e"
    and "\<exists>before raising after. order_by_priority_desc rules = before @ raising # after
              \<and> (\<forall>r \<in> set before. rule_match re r text = Inr False)
              \<and> match_type raising = ''regex'' \<and> re (lower (pattern raising)) text = Inl e"
    using raise_has_cause raise_is_reached by blast+
qed

theorem rule_based_categorize_contract_witness:
  "malformed re_sample bad_rule ''coffee shop''
   \<and> rule_based_categorize re_sample ([shop_rule] @ bad_rule # [coffee_rule, span_rule]) ''coffee shop''
       = rule_based_categorize re_sample ([shop_rule] @ [coffee_rule, span_rule]) ''coffee shop''
   \<and> only_re_error re_sample toy_rules ''coffee shop''
   \<and> (\<exists>r. rule_based_categorize re_sample toy_rules ''coffee shop'' = Inr r)
   \<and> list_all (\<lambda>r. rule_match re_sample r ''florist'' = Inr False) toy_rules
   \<and> rule_based_categorize re_sample toy_rules ''florist'' = Inr None
   \<and> rule_based_categorize re_sample toy_rules ''coffee shop'' = Inr (Some 3)
   \<and> (\<exists>rule \<in> set toy_rules. category_id rule = 3
         \<and> rule_match re_sample rule ''coffee shop'' = Inr True
         \<and> (\<forall>r \<in> set toy_rules. rule_match re_sample r ''coffee shop'' = Inr True
               \<longrightarrow> priority r \<le> priority rule))
   \<and> (\<exists>r \<in> set toy_rules. rule_match re_sample r ''coffee shop'' = Inr True)
   \<and> (\<exists>k. rule_based_categorize re_sample toy_rules ''coffee shop'' = Inr (Some k))
   \<and> order_by_priority_desc toy_rules = [bad_rule] @ coffee_rule # [shop_rule, span_rule]
   \<and> list_all (\<lambda>r. rule_match re_sample r ''coffee shop'' = Inr False) [bad_rule]
   \<and> rule_match re_sample coffee_rule ''coffee shop'' = Inr True
   \<and> rule_based_categorize re_sample toy_rules ''coffee shop'' = Inr (Some (category_id coffee_rule))
   \<and> order_by_priority_desc [overflow_rule, span_rule] = [span_rule] @ overflow_rule # []
   \<and> list_all (\<lambda>r. rule_match re_sample r ''coffee'' = Inr False) [span_rule]
   \<and> match_type overflow_rule = ''regex''
   \<and> re_sample (lower (pattern overflow_rule)) ''coffee'' = Inl (Exception ''OverflowError'')
   \<and> Exception ''OverflowError'' \<noteq> re_error
   \<and> rule_based_categorize re_sample [overflow_rule, span_rule] ''coffee''
       = Inl (Exception ''OverflowError'')
   \<and> (\<exists>rule \<in> set [overflow_rule, span_rule]. match_type rule = ''regex''
         \<and> re_sample (lower (pattern rule)) ''coffee'' = Inl (Exception ''OverflowError''))"
proof -
  have h1: "malformed re_sample bad_rule ''coffee shop''" by code_simp
  have h2: "only_re_error re_sample toy_rules ''coffee shop''" by code_simp
  have h3: "list_all (\<lambda>r. rule_match re_sample r ''florist'' = Inr False) toy_rules"
    by code_simp
  have h4: "rule_based_categorize re_sample toy_rules ''coffee shop'' = Inr (Some 3)"
    by code_simp
  have h6: "order_by_priority_desc toy_rules = [bad_rule] @ coffee_rule # [shop_rule, span_rule]"
    by code_simp
  have h6a: "list_all (\<lambda>r. rule_match re_sample r ''coffee shop'' = Inr False) [bad_rule]"
    by code_simp
  have h6b: "rule_match re_sample coffee_rule ''coffee shop'' = Inr True"
    by code_simp
  have h5: "\<exists>r \<in> set toy_rules. rule_match re_sample r ''coffee shop'' = Inr True"
    using h6b by (auto simp: toy_rules_def)
  have h7: "order_by_priority_desc [overflow_rule, span_rule] = [span_rule] @ overflow_rule # []"
    by code_simp
  have h7a: "list_all (\<lambda>r. rule_match re_sample r ''coffee'' = Inr False) [span_rule]"
    by code_simp
  have h7b: "match_type overflow_rule = ''regex''" by code_simp
  have h7c: "re_sample (lower (pattern overflow_rule)) ''coffee'' = Inl (Exception ''OverflowError'')"
    by code_simp
  have h7d: "Exception ''OverflowError'' \<noteq> re_error" by simp
  note a = rule_based_categorize_contract
    [of re_sample bad_rule "''coffee shop''" "[shop_rule]" "[coffee_rule, span_rule]" toy_rules 3
        "[bad_rule]" coffee_rule "[shop_rule, span_rule]"]
  note b = rule_based_categorize_contract
    [of re_sample _ "''florist''" _ _ toy_rules]
  note c = rule_based_categorize_contract
    [of re_sample _ "''coffee''" _ _ "[overflow_rule, span_rule]" _ "[span_rule]" overflow_rule
        "[]" "Exception ''OverflowError''"]
  have c1: "rule_based_categorize re_sample ([shop_rule] @ bad_rule # [coffee_rule, span_rule])
               ''coffee shop''
             = rule_based_categorize re_sample ([shop_rule] @ [coffee_rule, span_rule]) ''coffee shop''"
    using a h1 by blast
  have c2: "\<exists>r. rule_based_categorize re_sample toy_rules ''coffee shop'' = Inr r"
    using a h2 by blast
  have c3: "rule_based_categorize re_sample toy_rules ''florist'' = Inr None"
    using b h3 by (simp add: list_all_iff)
  have c4: "\<exists>rule \<in> set toy_rules. category_id rule = 3
         \<and> rule_match re_sample rule ''coffee shop'' = Inr True
         \<and> (\<forall>r \<in> set toy_rules. rule_match re_sample r ''coffee shop'' = Inr True
               \<longrightarrow> priority r \<le> priority rule)"
    using a h4 by blast
  have c5: "\<exists>k. rule_based_categorize re_sample toy_rules ''coffee shop'' = Inr (Some k)"
    using a h2 h5 by blast
  have c6: "rule_based_categorize re_sample toy_rules ''coffee shop''
              = Inr (Some (category_id coffee_rule))"
    using a h6 h6a h6b by (simp add: list_all_iff)
  have c7: "rule_based_categorize re_sample [overflow_rule, span_rule] ''coffee''
              = Inl (Exception ''OverflowError'')"
    using c h7 h7a h7b h7c h7d by (simp add: list_all_iff)
  have c8: "\<exists>rule \<in> set [overflow_rule, span_rule]. match_type rule = ''regex''
         \<and> re_sample (lower (pattern rule)) ''coffee'' = Inl (Exception ''OverflowError'')"
    using c c7 by blast
  show ?thesis
    using h1 c1 h2 c2 h3 c3 h4 c4 h5 c5 h6 h6a h6b c6 h7 h7a h7b h7c h7d c7 c8 by blast
qed

subsection \<open>C1: the decision order of \<open>categorize_transaction\<close>\<close>

text \<open>
  C1, as the specification states it, fails: after the rules \<open>categorize_transaction\<close>
  asks the stub \<open>classifier_predict\<close>, not the trained model. With no rule, a model that
  puts \<open>Book Shop\<close> into category 7 with probability 0.9, and an \<open>Uncategorized\<close>
  category 9, the code answers 9 where the stated order answers 7.
\<close>

theorem categorize_transaction_skips_model:
  "categorize_transaction re_sample toy_world (Some ''Book Shop'') None = Inr (Some 9)
   \<and> categorize_claimed re_sample (toy_sklearn [0.9, 0.1]) toy_world (Some ''Book Shop'') None
       = Inr (Some 7)"
  by code_simp

text \<open>
  C1, amended: the rules are tried on the merchant text, then on the description text,
  then on their concatenation (each lower-cased and stripped), and the first category
  found this way is returned; when none is found, the result is the id of the category
  named \<open>Uncategorized\<close> if there is one, and nothing otherwise. \<open>try_rules\<close> is one
  attempt: the text is not empty and the rule scan returns a non-zero id.
\<close>

theorem categorize_transaction_decision_order:
  fixes w :: "('v, 'c) world"
  shows
  "(try_rules re (rules_table w) (strip (lower (or_empty merchant))) = Inr (Some c) \<longrightarrow>
      categorize_transaction re w merchant description = Inr (Some c))
   \<and> (try_rules re (rules_table w) (strip (lower (or_empty merchant))) = Inr None
        \<and> try_rules re (rules_table w) (strip (lower (or_empty description))) = Inr (Some c) \<longrightarrow>
      categorize_transaction re w merchant description = Inr (Some c))
   \<and> (try_rules re (rules_table w) (strip (lower (or_empty merchant))) = Inr None
        \<and> try_rules re (rules_table w) (strip (lower (or_empty description))) = Inr None
        \<and> try_rules re (rules_table w)
             (strip (strip (lower (or_empty merchant)) @ '' '' @ strip (lower (or_empty description))))
            = Inr (Some c) \<longrightarrow>
      categorize_transaction re w merchant description = Inr (Some c))
   \<and> (try_rules re (rules_table w) (strip (lower (or_empty merchant))) = Inr None
        \<and> try_rules re (rules_table w) (strip (lower (or_empty description))) = Inr None
        \<and> try_rules re (rules_table w)
             (strip (strip (lower (or_empty merchant)) @ '' '' @ strip (lower (or_empty description))))
            = Inr None \<longrightarrow>
      categorize_transaction re w merchant description
        = Inr (map_option cat_id (first_by_name (categories_table w) ''Uncategorized'')))"
  by (simp add: categorize_transaction_def Let_def classifier_predict_def truthy_id_def
           split: option.splits)

theorem categorize_transaction_decision_order_witness:
  "try_rules re_sample (rules_table rule_world) (strip (lower (or_empty (Some ''Coffee Bar''))))
     = Inr (Some 3)
   \<and> categorize_transaction re_sample rule_world (Some ''Coffee Bar'') (Some ''Shop 12'')
       = Inr (Some 3)
   \<and> try_rules re_sample (rules_table rule_world) (strip (lower (or_empty (Some ''Bakery''))))
       = Inr None
   \<and> try_rules re_sample (rules_table rule_world) (strip (lower (or_empty (Some ''SHOP 12''))))
       = Inr (Some 4)
   \<and> categorize_transaction re_sample rule_world (Some ''Bakery'') (Some ''SHOP 12'')
       = Inr (Some 4)
   \<and> try_rules re_sample (rules_table rule_world) (strip (lower (or_empty (Some ''Main St''))))
       = Inr None
   \<and> try_rules re_sample (rules_table rule_world)
        (strip (strip (lower (or_empty (Some ''Bakery''))) @ '' ''
                @ strip (lower (or_empty (Some ''Main St'')))))
       = Inr (Some 5)
   \<and> categorize_transaction re_sample rule_world (Some ''Bakery'') (Some ''Main St'')
       = Inr (Some 5)
   \<and> try_rules re_sample (rules_table rule_world) (strip (lower (or_empty None))) = Inr None
   \<and> try_rules re_sample (rules_table rule_world)
        (strip (strip (lower (or_empty (Some ''Bakery''))) @ '' '' @ strip (lower (or_empty None))))
       = Inr None
   \<and> categorize_transaction re_sample rule_world (Some ''Bakery'') None
       = Inr (map_option cat_id (first_by_name (categories_table rule_world) ''Uncategorized''))"
proof -
  have a1: "try_rules re_sample (rules_table rule_world)
              (strip (lower (or_empty (Some ''Coffee Bar'')))) = Inr (Some 3)"
    by code_simp
  have b1: "try_rules re_sample (rules_table rule_world)
              (strip (lower (or_empty (Some ''Bakery'')))) = Inr None"
    by code_simp
  have b2: "try_rules re_sample (rules_table rule_world)
              (strip (lower (or_empty (Some ''SHOP 12'')))) = Inr (Some 4)"
    by code_simp
  have c2: "try_rules re_sample (rules_table rule_world)
              (strip (lower (or_empty (Some ''Main St'')))) = Inr None"
    by code_simp
  have c3: "try_rules re_sample (rules_table rule_world)
              (strip (strip (lower (or_empty (Some ''Bakery''))) @ '' ''
                      @ strip (lower (or_empty (Some ''Main St''))))) = Inr (Some 5)"
    by code_simp
  have d2: "try_rules re_sample (rules_table rule_world) (strip (lower (or_empty None)))
              = Inr None"
    by code_simp
  have d3: "try_rules re_sample (rules_table rule_world)
              (strip (strip (lower (or_empty (Some ''Bakery''))) @ '' ''
                      @ strip (lower (or_empty None)))) = Inr None"
    by code_simp
  have r1: "categorize_transaction re_sample rule_world (Some ''Coffee Bar'') (Some ''Shop 12'')
              = Inr (Some 3)"
    using categorize_transaction_decision_order
            [of re_sample rule_world "Some ''Coffee Bar''" 3 "Some ''Shop 12''"] a1
    by blast
  have r2: "categorize_transaction re_sample rule_world (Some ''Bakery'') (Some ''SHOP 12'')
              = Inr (Some 4)"
    using categorize_transaction_decision_order
            [of re_sample rule_world "Some ''Bakery''" 4 "Some ''SHOP 12''"] b1 b2
    by blast
  have r3: "categorize_transaction re_sample rule_world (Some ''Bakery'') (Some ''Main St'')
              = Inr (Some 5)"
    using categorize_transaction_decision_order
            [of re_sample rule_world "Some ''Bakery''" 5 "Some ''Main St''"] b1 c2 c3
    by blast
  have r4: "categorize_transaction re_sample rule_world (Some ''Bakery'') None
              = Inr (map_option cat_id (first_by_name (categories_table rule_world) ''Uncategorized''))"
    using categorize_transaction_decision_order
            [of re_sample rule_world "Some ''Bakery''" 0 None] b1 d2 d3
    by blast
  show ?thesis using a1 b1 b2 c2 c3 d2 d3 r1 r2 r3 r4 by blast
qed

subsection \<open>C9: the trained model and \<open>categorize_transaction\<close>\<close>

lemma train_ml_model_tables:
  "rules_table (snd (train_ml_model sk io w)) = rules_table w
   \<and> categories_table (snd (train_ml_model sk io w)) = categories_table w"
  by (simp add: train_ml_model_def get_ml_categorizer_def Let_def split: prod.splits option.splits)

text \<open>
  C9: \<open>classifier_predict\<close> returns \<open>None\<close> for every text; two states of the process
  with the same rules and the same categories give the same result, whatever model each
  holds in memory or on disk; and training a model changes no result.
\<close>

theorem categorize_transaction_ignores_model:
  fixes w :: "('v, 'c) world" and w' :: "('u, 'd) world"
  shows "classifier_predict text = None
   \<and> (rules_table w = rules_table w' \<and> categories_table w = categories_table w' \<longrightarrow>
        categorize_transaction re w merchant description
          = categorize_transaction re w' merchant description)
   \<and> categorize_transaction re (snd (train_ml_model sk io w)) merchant description
        = categorize_transaction re w merchant description"
proof -
  have frame: "\<And>(a :: ('v, 'c) world) (b :: ('u, 'd) world).
         rules_table a = rules_table b \<and> categories_table a = categories_table b \<longrightarrow>
         categorize_transaction re a merchant description
           = categorize_transaction re b merchant description"
    by (simp add: categorize_transaction_def classifier_predict_def
             cong: sum.case_cong option.case_cong)
  have same: "\<And>(a :: ('v, 'c) world) (b :: ('v, 'c) world).
         rules_table a = rules_table b \<and> categories_table a = categories_table b \<longrightarrow>
         categorize_transaction re a merchant description
           = categorize_transaction re b merchant description"
    by (simp add: categorize_transaction_def classifier_predict_def
             cong: sum.case_cong option.case_cong)
  show ?thesis
    using frame [of w w'] same [of "snd (train_ml_model sk io w)" w]
          train_ml_model_tables [of sk io w]
    by (simp add: classifier_predict_def)
qed

theorem categorize_transaction_ignores_model_witness:
  "rules_table toy_world = rules_table (toy_world\<lparr>ml_global := None\<rparr>)
   \<and> categories_table toy_world = categories_table (toy_world\<lparr>ml_global := None\<rparr>)
   \<and> categorize_transaction re_sample toy_world (Some ''Book Shop'') None
       = categorize_transaction re_sample (toy_world\<lparr>ml_global := None\<rparr>) (Some ''Book Shop'') None"
proof -
  have h: "rules_table toy_world = rules_table (toy_world\<lparr>ml_global := None\<rparr>)
           \<and> categories_table toy_world = categories_table (toy_world\<lparr>ml_global := None\<rparr>)"
    by simp
  have "categorize_transaction re_sample toy_world (Some ''Book Shop'') None
       = categorize_transaction re_sample (toy_world\<lparr>ml_global := None\<rparr>) (Some ''Book Shop'') None"
    using categorize_transaction_ignores_model
            [of _ toy_world "toy_world\<lparr>ml_global := None\<rparr>" re_sample "Some ''Book Shop''" None] h
    by blast
  with h show ?thesis by blast
qed

subsection \<open>Prediction\<close>

lemma argmax_max:
  assumes "ps \<noteq> []"
  shows "argmax ps < length ps \<and> ps ! argmax ps = Max (set ps)"
proof -
  let ?m = "Max (set ps)"
  have "?m \<in> set ps" by (rule Max_in) (use assms in simp_all)
  then have "dropWhile (\<lambda>p. p \<noteq> ?m) ps \<noteq> []"
    by auto
  then have "length (dropWhile (\<lambda>p. p \<noteq> ?m) ps) > 0" by simp
  moreover have "length (takeWhile (\<lambda>p. p \<noteq> ?m) ps) + length (dropWhile (\<lambda>p. p \<noteq> ?m) ps)
                   = length ps"
    by (simp flip: length_append)
  ultimately have lt: "length (takeWhile (\<lambda>p. p \<noteq> ?m) ps) < length ps"
    by linarith
  from nth_length_takeWhile [OF lt] show ?thesis
    using lt by (simp add: argmax_def)
qed

lemma class_probabilities_unit:
  assumes "proba_in_unit sk" and "class_probabilities sk v c processed = Inr ps"
  shows "ps \<noteq> [] \<and> (\<forall>p \<in> set ps. 0 \<le> p \<and> p \<le> 1)"
proof -
  from assms(2) obtain X rows where "predict_proba sk c X = Inr (ps # rows)" and "ps \<noteq> []"
    by (auto simp: class_probabilities_def split: sum.splits list.splits if_splits)
  with assms(1) show ?thesis
    unfolding proba_in_unit_def by fastforce
qed

lemma predict_try_value:
  assumes "class_probabilities sk v c processed = Inr ps"
    and "predict_try sk self v c processed thr = Inr (cat, p)"
  shows "p = 0 \<or> p = ps ! argmax ps"
proof (cases "ps ! argmax ps < thr")
  case True
  with assms show ?thesis by (simp add: predict_try_def Let_def)
next
  case False
  note above = this
  show ?thesis
  proof (cases "category_mapping self")
    case None
    with assms above show ?thesis by (simp add: predict_try_def Let_def)
  next
    case (Some m)
    note mapping = this
    show ?thesis
    proof (cases "map_of m (argmax ps)")
      case None
      with assms above mapping show ?thesis by (simp add: predict_try_def Let_def)
    next
      case (Some k)
      with assms above mapping show ?thesis by (simp add: predict_try_def Let_def)
    qed
  qed
qed

lemma predict_try_unit:
  assumes "proba_in_unit sk" and "predict_try sk self v c processed thr = Inr (cat, p)"
  shows "0 \<le> p \<and> p \<le> 1"
proof (cases "class_probabilities sk v c processed")
  case (Inl e)
  then have "predict_try sk self v c processed thr = Inl e"
    by (simp add: predict_try_def)
  with assms(2) show ?thesis by simp
next
  case (Inr ps)
  have ne: "ps \<noteq> []" and unit: "\<forall>p \<in> set ps. 0 \<le> p \<and> p \<le> 1"
    using class_probabilities_unit [OF assms(1) Inr] by simp_all
  from ne have "ps ! argmax ps \<in> set ps"
    using argmax_max [of ps] by simp
  with unit have "0 \<le> ps ! argmax ps \<and> ps ! argmax ps \<le> 1" by blast
  moreover have "p = 0 \<or> p = ps ! argmax ps"
    by (rule predict_try_value [OF Inr assms(2)])
  ultimately show ?thesis by auto
qed

lemma predict_cases:
  "predict sk self text thr = (None, 0)
   \<or> (\<exists>v c. vectorizer self = Some v \<and> classifier self = Some c
         \<and> predict_try sk self v c (preprocess_text text) thr = Inr (predict sk self text thr))"
proof (cases "vectorizer self")
  case None
  then show ?thesis by (simp add: predict_def)
next
  case (Some v)
  note vec = this
  show ?thesis
  proof (cases "classifier self")
    case None
    with vec show ?thesis by (simp add: predict_def)
  next
    case (Some c)
    with vec show ?thesis
      by (cases "predict_try sk self v c (preprocess_text text) thr")
         (simp_all add: predict_def Let_def)
  qed
qed

lemma predict_unit:
  assumes "proba_in_unit sk"
  shows "0 \<le> snd (predict sk self text thr) \<and> snd (predict sk self text thr) \<le> 1"
proof -
  from predict_cases [of sk self "text" thr] show ?thesis
  proof
    assume "predict sk self text thr = (None, 0)"
    then show ?thesis by simp
  next
    assume "\<exists>v c. vectorizer self = Some v \<and> classifier self = Some c
         \<and> predict_try sk self v c (preprocess_text text) thr = Inr (predict sk self text thr)"
    then obtain v c where
      "predict_try sk self v c (preprocess_text text) thr = Inr (predict sk self text thr)"
      by blast
    then show ?thesis
      using predict_try_unit [OF assms, of self v c "preprocess_text text" thr
              "fst (predict sk self text thr)" "snd (predict sk self text thr)"]
      by simp
  qed
qed

lemma predict_below_threshold:
  assumes "vectorizer self = Some v" and "classifier self = Some c"
    and "class_probabilities sk v c (preprocess_text text) = Inr ps"
    and "Max (set ps) < thr"
  shows "predict sk self text thr = (None, 0)"
proof -
  from assms(3) have "ps \<noteq> []"
    by (auto simp: class_probabilities_def split: sum.splits list.splits if_splits)
  then have "ps ! argmax ps = Max (set ps)" using argmax_max by blast
  with assms show ?thesis
    by (simp add: predict_def predict_try_def Let_def)
qed

lemma predict_above_threshold:
  assumes "vectorizer self = Some v" and "classifier self = Some c"
    and "preprocess_text text \<noteq> []"
    and "class_probabilities sk v c (preprocess_text text) = Inr ps"
    and "thr \<le> Max (set ps)"
    and "category_mapping self = Some m" and "map_of m (argmax ps) = Some cat"
  shows "predict sk self text thr = (Some cat, Max (set ps))"
proof -
  from assms(4) have "ps \<noteq> []"
    by (auto simp: class_probabilities_def split: sum.splits list.splits if_splits)
  then have "ps ! argmax ps = Max (set ps)" using argmax_max by blast
  with assms show ?thesis
    by (simp add: predict_def predict_try_def Let_def)
qed

lemma predict_try_no_mapping:
  "category_mapping self = None \<Longrightarrow>
   predict_try sk self v c processed thr = Inr r \<Longrightarrow> r = (None, 0)"
  by (cases "class_probabilities sk v c processed")
     (auto simp: predict_try_def Let_def split: if_splits)

lemma predict_no_mapping:
  assumes "category_mapping self = None"
  shows "predict sk self text thr = (None, 0)"
  using predict_cases [of sk self "text" thr] predict_try_no_mapping [OF assms]
  by metis

lemma predict_no_classifier:
  "classifier self = None \<Longrightarrow> predict sk self text thr = (None, 0)"
  by (simp add: predict_def split: option.splits)

lemma load_failed_state:
  "snd (load_model blank_categorizer d) = False \<Longrightarrow>
   classifier (fst (load_model blank_categorizer d)) = None
   \<or> category_mapping (fst (load_model blank_categorizer d)) = None"
  by (auto simp: load_model_def blank_categorizer_def Let_def split: pkl.splits option.splits)

subsection \<open>C6: \<open>predict\<close>\<close>

text \<open>
  C6: when the classifier returns probabilities, the confidence \<open>predict\<close> returns lies
  in \<open>[0, 1]\<close>; the result is \<open>(None, 0)\<close> when the processed text is empty, when the
  vectorizer or the classifier is missing, and when the highest class probability is
  below the threshold; and whatever exception the \<open>try\<close> block raises, the result is
  \<open>(None, 0)\<close>: nothing is raised to the caller.
\<close>

theorem predict_contract:
  assumes "proba_in_unit sk"
  shows "0 \<le> snd (predict sk self text thr) \<and> snd (predict sk self text thr) \<le> 1
    \<and> (preprocess_text text = [] \<longrightarrow> predict sk self text thr = (None, 0))
    \<and> (vectorizer self = None \<or> classifier self = None \<longrightarrow> predict sk self text thr = (None, 0))
    \<and> (\<forall>v c ps. vectorizer self = Some v \<and> classifier self = Some c
          \<and> class_probabilities sk v c (preprocess_text text) = Inr ps \<and> Max (set ps) < thr
          \<longrightarrow> predict sk self text thr = (None, 0))
    \<and> (\<forall>v c e. vectorizer self = Some v \<and> classifier self = Some c
          \<and> predict_try sk self v c (preprocess_text text) thr = Inl e
          \<longrightarrow> predict sk self text thr = (None, 0))"
proof (intro conjI impI allI)
  show "0 \<le> snd (predict sk self text thr)" and "snd (predict sk self text thr) \<le> 1"
    using predict_unit [OF assms] by blast+
next
  assume "preprocess_text text = []"
  then show "predict sk self text thr = (None, 0)"
    by (simp add: predict_def split: option.splits)
next
  assume "vectorizer self = None \<or> classifier self = None"
  then show "predict sk self text thr = (None, 0)"
    by (auto simp: predict_def split: option.splits)
next
  fix v c ps
  assume "vectorizer self = Some v \<and> classifier self = Some c
          \<and> class_probabilities sk v c (preprocess_text text) = Inr ps \<and> Max (set ps) < thr"
  then show "predict sk self text thr = (None, 0)"
    using predict_below_threshold [of self v c sk "text" ps thr] by simp
next
  fix v c e
  assume "vectorizer self = Some v \<and> classifier self = Some c
          \<and> predict_try sk self v c (preprocess_text text) thr = Inl e"
  then show "predict sk self text thr = (None, 0)"
    by (simp add: predict_def Let_def)
qed

theorem predict_contract_witness:
  "proba_in_unit (toy_sklearn [1/5, 4/5])
   \<and> 0 \<le> snd (predict (toy_sklearn [1/5, 4/5]) toy_model ''Book Shop'' 0.15)
   \<and> snd (predict (toy_sklearn [1/5, 4/5]) toy_model ''Book Shop'' 0.15) \<le> 1
   \<and> preprocess_text ''#12'' = []
   \<and> predict (toy_sklearn [1/5, 4/5]) toy_model ''#12'' 0.15 = (None, 0)
   \<and> vectorizer no_model = None
   \<and> predict (toy_sklearn [1/5, 4/5]) no_model ''Book Shop'' 0.15 = (None, 0)
   \<and> vectorizer toy_model = Some 1 \<and> classifier toy_model = Some 1
   \<and> class_probabilities (toy_sklearn [1/5, 4/5]) 1 1 (preprocess_text ''Book Shop'')
       = Inr [1/5, 4/5]
   \<and> Max (set [1/5, 4/5 :: real]) < 0.9
   \<and> predict (toy_sklearn [1/5, 4/5]) toy_model ''Book Shop'' 0.9 = (None, 0)
   \<and> vectorizer (toy_model\<lparr>vectorizer := Some 0\<rparr>) = Some 0
   \<and> classifier (toy_model\<lparr>vectorizer := Some 0\<rparr>) = Some 1
   \<and> predict_try (toy_sklearn [1/5, 4/5]) (toy_model\<lparr>vectorizer := Some 0\<rparr>) 0 1
        (preprocess_text ''Book Shop'') 0.15 = Inl (Exception ''NotFittedError'')
   \<and> predict (toy_sklearn [1/5, 4/5]) (toy_model\<lparr>vectorizer := Some 0\<rparr>) ''Book Shop'' 0.15
       = (None, 0)"
proof -
  let ?sk = "toy_sklearn [1/5, 4/5]"
  have h: "proba_in_unit ?sk"
    by (auto simp: proba_in_unit_def toy_sklearn_def)
  have e: "preprocess_text ''#12'' = []" by code_simp
  have n: "vectorizer no_model = None" by (simp add: no_model_def blank_categorizer_def)
  have m: "vectorizer toy_model = Some 1 \<and> classifier toy_model = Some 1"
    by (simp add: toy_model_def)
  have p: "class_probabilities ?sk 1 1 (preprocess_text ''Book Shop'') = Inr [1/5, 4/5]"
    by code_simp
  have t: "Max (set [1/5, 4/5 :: real]) < 0.9" by simp
  have u: "vectorizer (toy_model\<lparr>vectorizer := Some 0\<rparr>) = Some 0
           \<and> classifier (toy_model\<lparr>vectorizer := Some 0\<rparr>) = Some 1"
    by (simp add: toy_model_def)
  have x: "predict_try ?sk (toy_model\<lparr>vectorizer := Some 0\<rparr>) 0 1
             (preprocess_text ''Book Shop'') 0.15 = Inl (Exception ''NotFittedError'')"
    by code_simp
  note a = predict_contract [OF h, of toy_model "''Book Shop''" "0.15"]
  note b = predict_contract [OF h, of toy_model "''#12''" "0.15"]
  note c = predict_contract [OF h, of no_model "''Book Shop''" "0.15"]
  note d = predict_contract [OF h, of toy_model "''Book Shop''" "0.9"]
  note f = predict_contract [OF h, of "toy_model\<lparr>vectorizer := Some 0\<rparr>" "''Book Shop''" "0.15"]
  have r1: "0 \<le> snd (predict ?sk toy_model ''Book Shop'' 0.15)
            \<and> snd (predict ?sk toy_model ''Book Shop'' 0.15) \<le> 1"
    using a by blast
  have r2: "predict ?sk toy_model ''#12'' 0.15 = (None, 0)" using b e by blast
  have r3: "predict ?sk no_model ''Book Shop'' 0.15 = (None, 0)" using c n by blast
  have r4: "predict ?sk toy_model ''Book Shop'' 0.9 = (None, 0)" using d m p t by blast
  have r5: "predict ?sk (toy_model\<lparr>vectorizer := Some 0\<rparr>) ''Book Shop'' 0.15 = (None, 0)"
    using f u x by blast
  show ?thesis using h e n m p t u x r1 r2 r3 r4 r5 by blast
qed

subsection \<open>C10: the threshold of the predict endpoint\<close>

lemma round4_zero: "round4 0 = 0"
  by (simp add: round4_def)

lemma get_ml_categorizer_some:
  "ml_global w = Some self \<Longrightarrow> get_ml_categorizer w = (self, w)"
  by (simp add: get_ml_categorizer_def)

lemma predict_category_default:
  "predict_category sk w (Some (data\<lparr>req_confidence_threshold := None\<rparr>))
     = predict_category sk w (Some (data\<lparr>req_confidence_threshold := Some 0.3\<rparr>))"
  by (simp add: predict_category_def endpoint_threshold_def)

text \<open>
  C10: a request without \<open>confidence_threshold\<close> is answered as one with the threshold
  \<open>0.3\<close>. For a merchant text whose highest class probability lies in \<open>[0.15, 0.3)\<close>,
  \<open>predict\<close> and \<open>ml_categorize\<close> with their own default \<open>0.15\<close> return the category
  and that probability, while \<open>predict\<close> with the endpoint's default, and the endpoint
  itself, return no category and confidence \<open>0\<close>.
\<close>

theorem endpoint_threshold_differs:
  "predict_category sk w (Some (data\<lparr>req_confidence_threshold := None\<rparr>))
     = predict_category sk w (Some (data\<lparr>req_confidence_threshold := Some 0.3\<rparr>))
   \<and> (ml_global w = Some self \<and> vectorizer self = Some v \<and> classifier self = Some c
        \<and> merchant \<noteq> [] \<and> strip (merchant @ '' '') = merchant
        \<and> preprocess_text merchant \<noteq> []
        \<and> class_probabilities sk v c (preprocess_text merchant) = Inr ps
        \<and> 0.15 \<le> Max (set ps) \<and> Max (set ps) < 0.3
        \<and> category_mapping self = Some m \<and> map_of m (argmax ps) = Some cat \<and> cat \<noteq> 0
      \<longrightarrow> predict sk self merchant default_threshold = (Some cat, Max (set ps))
          \<and> predict sk self merchant endpoint_threshold = (None, 0)
          \<and> fst (ml_categorize sk w (Some merchant) None default_threshold)
               = (Some cat, Max (set ps))
          \<and> fst (predict_category sk w
                    (Some \<lparr>req_merchant = Some merchant, req_description = None,
                           req_confidence_threshold = None\<rparr>))
               = (200, Prediction None None 0))"
proof (intro conjI impI)
  show "predict_category sk w (Some (data\<lparr>req_confidence_threshold := None\<rparr>))
     = predict_category sk w (Some (data\<lparr>req_confidence_threshold := Some 0.3\<rparr>))"
    by (rule predict_category_default)
next
  assume h: "ml_global w = Some self \<and> vectorizer self = Some v \<and> classifier self = Some c
        \<and> merchant \<noteq> [] \<and> strip (merchant @ '' '') = merchant
        \<and> preprocess_text merchant \<noteq> []
        \<and> class_probabilities sk v c (preprocess_text merchant) = Inr ps
        \<and> 0.15 \<le> Max (set ps) \<and> Max (set ps) < 0.3
        \<and> category_mapping self = Some m \<and> map_of m (argmax ps) = Some cat \<and> cat \<noteq> 0"
  then have core: "predict sk self merchant default_threshold = (Some cat, Max (set ps))"
    using predict_above_threshold [of self v c merchant sk ps default_threshold m cat]
    by (simp add: default_threshold_def)
  from h have endp: "predict sk self merchant endpoint_threshold = (None, 0)"
    using predict_below_threshold [of self v c sk merchant ps endpoint_threshold]
    by (simp add: endpoint_threshold_def)
  from h have g: "get_ml_categorizer w = (self, w)"
    by (simp add: get_ml_categorizer_some)
  show "predict sk self merchant default_threshold = (Some cat, Max (set ps))" by (rule core)
  show "predict sk self merchant endpoint_threshold = (None, 0)" by (rule endp)
  show "fst (ml_categorize sk w (Some merchant) None default_threshold) = (Some cat, Max (set ps))"
    using h core g by (simp add: ml_categorize_def Let_def truthy_str_def truthy_id_def or_empty_def)
  have "fst (ml_categorize sk w (Some merchant) None endpoint_threshold) = (None, 0)"
    using h endp g by (simp add: ml_categorize_def Let_def truthy_str_def truthy_id_def or_empty_def)
  moreover have "snd (ml_categorize sk w (Some merchant) None endpoint_threshold) = w"
    using g by (simp add: ml_categorize_def Let_def)
  ultimately have "ml_categorize sk w (Some merchant) None endpoint_threshold = ((None, 0), w)"
    by (simp add: prod_eq_iff)
  then show "fst (predict_category sk w
                    (Some \<lparr>req_merchant = Some merchant, req_description = None,
                           req_confidence_threshold = None\<rparr>))
               = (200, Prediction None None 0)"
    using h by (simp add: predict_category_def Let_def truthy_str_def truthy_id_def round4_zero)
qed

theorem endpoint_threshold_differs_witness:
  "ml_global toy_world = Some toy_model \<and> vectorizer toy_model = Some 1
   \<and> classifier toy_model = Some 1 \<and> ''Book Shop'' \<noteq> []
   \<and> strip (''Book Shop'' @ '' '') = ''Book Shop''
   \<and> preprocess_text ''Book Shop'' \<noteq> []
   \<and> class_probabilities (toy_sklearn [1/5, 1/4, 1/5, 1/5, 3/20]) 1 1 (preprocess_text ''Book Shop'')
       = Inr [1/5, 1/4, 1/5, 1/5, 3/20]
   \<and> 0.15 \<le> Max (set [1/5, 1/4, 1/5, 1/5, 3/20 :: real])
   \<and> Max (set [1/5, 1/4, 1/5, 1/5, 3/20 :: real]) < 0.3
   \<and> category_mapping toy_model = Some [(0, 7), (1, 8)]
   \<and> map_of [(0, 7), (1, 8 :: int)] (argmax [1/5, 1/4, 1/5, 1/5, 3/20]) = Some 8
   \<and> (8 :: int) \<noteq> 0
   \<and> predict (toy_sklearn [1/5, 1/4, 1/5, 1/5, 3/20]) toy_model ''Book Shop'' default_threshold
       = (Some 8, Max (set [1/5, 1/4, 1/5, 1/5, 3/20]))
   \<and> predict (toy_sklearn [1/5, 1/4, 1/5, 1/5, 3/20]) toy_model ''Book Shop'' endpoint_threshold
       = (None, 0)
   \<and> fst (ml_categorize (toy_sklearn [1/5, 1/4, 1/5, 1/5, 3/20]) toy_world (Some ''Book Shop'')
            None default_threshold)
       = (Some 8, Max (set [1/5, 1/4, 1/5, 1/5, 3/20]))
   \<and> fst (predict_category (toy_sklearn [1/5, 1/4, 1/5, 1/5, 3/20]) toy_world
            (Some \<lparr>req_merchant = Some ''Book Shop'', req_description = None,
                   req_confidence_threshold = None\<rparr>))
       = (200, Prediction None None 0)"
proof -
  let ?row = "[1/5, 1/4, 1/5, 1/5, 3/20] :: real list"
  have h: "ml_global toy_world = Some toy_model \<and> vectorizer toy_model = Some 1
        \<and> classifier toy_model = Some 1
        \<and> ''Book Shop'' \<noteq> [] \<and> strip (''Book Shop'' @ '' '') = ''Book Shop''
        \<and> preprocess_text ''Book Shop'' \<noteq> []
        \<and> class_probabilities (toy_sklearn ?row) 1 1 (preprocess_text ''Book Shop'') = Inr ?row
        \<and> 0.15 \<le> Max (set ?row) \<and> Max (set ?row) < 0.3
        \<and> category_mapping toy_model = Some [(0, 7), (1, 8)]
        \<and> map_of [(0, 7), (1, 8 :: int)] (argmax ?row) = Some 8 \<and> (8 :: int) \<noteq> 0"
    by code_simp
  from endpoint_threshold_differs
         [of "toy_sklearn ?row" toy_world _ toy_model 1 1 "''Book Shop''" ?row "[(0, 7), (1, 8)]" 8]
       h
  have "predict (toy_sklearn ?row) toy_model ''Book Shop'' default_threshold
          = (Some 8, Max (set ?row))
        \<and> predict (toy_sklearn ?row) toy_model ''Book Shop'' endpoint_threshold = (None, 0)
        \<and> fst (ml_categorize (toy_sklearn ?row) toy_world (Some ''Book Shop'') None
                 default_threshold)
            = (Some 8, Max (set ?row))
        \<and> fst (predict_category (toy_sklearn ?row) toy_world
                 (Some \<lparr>req_merchant = Some ''Book Shop'', req_description = None,
                        req_confidence_threshold = None\<rparr>))
            = (200, Prediction None None 0)"
    by blast
  with h show ?thesis by blast
qed

subsection \<open>C7: \<open>model_status\<close>\<close>

text \<open>
  C7, as the specification states it, fails: the list in the response holds the values
  of the label mapping, which are category ids, not category names. For the model over
  the categories 7 (\<open>Books\<close>) and 8 (\<open>Toys\<close>) the response lists \<open>7\<close> and \<open>8\<close>.
\<close>

theorem model_status_lists_ids:
  "fst (model_status toy_world)
     = Inr (200, \<lparr>is_trained = True, num_categories = 2, categories = [JInt 7, JInt 8]\<rparr>)
   \<and> category_names_claimed (categories_table toy_world) [(0, 7), (1, 8)]
       = [JStr ''Books'', JStr ''Toys'']"
  by code_simp

text \<open>
  C7, amended: \<open>model_status\<close> reports whether a classifier is loaded, the size of the
  label mapping (\<open>0\<close> when there is none), and the list of the category ids in the
  mapping, in the mapping's order, when a classifier is loaded, the empty list when
  none is.
\<close>

theorem model_status_contract:
  "(classifier (fst (get_ml_categorizer w)) = None \<longrightarrow>
      fst (model_status w)
        = Inr (200, \<lparr>is_trained = False,
                      num_categories = (case category_mapping (fst (get_ml_categorizer w)) of
                                          None \<Rightarrow> 0 | Some m \<Rightarrow> length m),
                      categories = []\<rparr>))
   \<and> (classifier (fst (get_ml_categorizer w)) \<noteq> None
        \<and> category_mapping (fst (get_ml_categorizer w)) = Some m \<longrightarrow>
      fst (model_status w)
        = Inr (200, \<lparr>is_trained = True, num_categories = length m,
                      categories = map (\<lambda>(i, cat). JInt cat) m\<rparr>))"
  by (auto simp: model_status_def Let_def split: prod.splits option.splits)

theorem model_status_contract_witness:
  "classifier (fst (get_ml_categorizer (toy_world\<lparr>ml_global := None\<rparr>))) = None
   \<and> fst (model_status (toy_world\<lparr>ml_global := None\<rparr>))
       = Inr (200, \<lparr>is_trained = False, num_categories = 0, categories = []\<rparr>)
   \<and> classifier (fst (get_ml_categorizer toy_world)) = Some 1
   \<and> category_mapping (fst (get_ml_categorizer toy_world)) = Some [(0, 7), (1, 8)]
   \<and> fst (model_status toy_world)
       = Inr (200, \<lparr>is_trained = True, num_categories = 2, categories = [JInt 7, JInt 8]\<rparr>)"
proof -
  let ?w0 = "toy_world\<lparr>ml_global := None\<rparr>"
  have a: "classifier (fst (get_ml_categorizer ?w0)) = None" by code_simp
  have a': "category_mapping (fst (get_ml_categorizer ?w0)) = None" by code_simp
  have b: "classifier (fst (get_ml_categorizer toy_world)) = Some 1
           \<and> category_mapping (fst (get_ml_categorizer toy_world)) = Some [(0, 7), (1, 8)]"
    by code_simp
  have r1: "fst (model_status ?w0)
              = Inr (200, \<lparr>is_trained = False, num_categories = 0, categories = []\<rparr>)"
    using model_status_contract [of ?w0] a a' by simp
  have r2: "fst (model_status toy_world)
       = Inr (200, \<lparr>is_trained = True, num_categories = 2, categories = [JInt 7, JInt 8]\<rparr>)"
    using model_status_contract [of toy_world "[(0, 7), (1, 8)]"] b by simp
  show ?thesis using a b r1 r2 by blast
qed

subsection \<open>Training\<close>

lemma steps_memory_first:
  "(m, d') \<in> set (fst (train_model_steps sk io cats self d filtered)) \<Longrightarrow>
   d' = d \<or> m = fst (final_state (self, d) (fst (train_model_steps sk io cats self d filtered)))"
  unfolding train_model_steps_def Let_def final_state_def
  by (auto split: sum.splits prod.splits simp: last_map)

lemma steps_first:
  "fst (train_model_steps sk io cats self d filtered) \<noteq> []
   \<and> hd (fst (train_model_steps sk io cats self d filtered))
       = (self\<lparr>category_mapping := Some (enumerate 0 (sort (remdups (map snd filtered))))\<rparr>, d)"
  unfolding train_model_steps_def Let_def
  by (auto split: sum.splits prod.splits)

lemma steps_outcome_io:
  "snd (train_model_steps sk io cats self d filtered)
     = snd (train_model_steps sk io' cats self d filtered)"
  unfolding train_model_steps_def Let_def
  by (auto split: sum.splits prod.splits)

lemma filtered_samples_le: "length (filtered_samples texts labels n) \<le> length texts"
proof -
  have "length (filtered_samples texts labels n) \<le> length (zip texts labels)"
    unfolding filtered_samples_def by (rule length_filter_le)
  then show ?thesis by simp
qed

lemma train_insufficient:
  assumes "length (filtered_samples (fst (get_training_data cats txns))
                     (snd (get_training_data cats txns)) n) < 10"
  shows "\<exists>msg. train sk io cats txns self d n = ([], Inr (Failure msg))"
proof (cases "get_training_data cats txns")
  case (Pair texts labels)
  with assms have f: "length (filtered_samples texts labels n) < 10" by simp
  show ?thesis
  proof (cases "length texts < 10")
    case True
    with Pair show ?thesis by (simp add: train_def)
  next
    case False
    with Pair f show ?thesis by (simp add: train_def Let_def)
  qed
qed

lemma train_outcome_io:
  "snd (train sk io cats txns self d n) = snd (train sk io' cats txns self d n)"
  using steps_outcome_io [of sk io cats self d _ io']
  by (simp add: train_def Let_def split: prod.splits)

lemma toy_entries: "training_entries toy_categories = []"
  by code_simp

lemma novel: "preprocess_text ''novel'' = ''novel''"
  by code_simp

lemma lego: "preprocess_text ''lego'' = ''lego''"
  by code_simp

lemma toy_samples:
  "txn_samples (toy_txn ''novel'' 7) = [(''novel'', 7)]"
  "txn_samples (toy_txn ''lego'' 8) = [(''lego'', 8)]"
  by (simp_all add: txn_samples_def toy_txn_def sample_of_def truthy_str_def or_empty_def
        novel lego)

lemma toy_training_data:
  "get_training_data toy_categories toy_transactions = (map fst toy_data, map snd toy_data)"
  by (simp add: get_training_data_def toy_entries toy_transactions_def toy_samples
        toy_data_def numeral_eq_Suc)

lemma toy_filtered: "filtered_samples (map fst toy_data) (map snd toy_data) 2 = toy_data"
  by code_simp

lemma toy_length: "length toy_data = 12"
  by (simp add: toy_data_def)

lemma toy_train:
  "train sk io toy_categories toy_transactions self d 2
     = train_model_steps sk io toy_categories self d toy_data"
  by (simp add: train_def toy_training_data toy_filtered toy_length)

lemma toy_steps_old:
  "fst (train_model_steps (toy_sklearn [9/10, 1/10]) (\<lambda>f. Written) toy_categories old_model
         empty_dir toy_data)
   = [(old_model\<lparr>category_mapping := Some [(0, 7), (1, 8)]\<rparr>, empty_dir),
      (old_model\<lparr>category_mapping := Some [(0, 7), (1, 8)],
                 reverse_mapping := Some [(7, 0), (8, 1)]\<rparr>, empty_dir),
      (toy_model\<lparr>vectorizer := Some 0, classifier := Some 5\<rparr>, empty_dir),
      (toy_model\<lparr>classifier := Some 5\<rparr>, empty_dir),
      (toy_model\<lparr>classifier := Some 0\<rparr>, empty_dir),
      (toy_model, empty_dir),
      (toy_model, empty_dir\<lparr>vectorizer_pkl := Pickle 1\<rparr>),
      (toy_model, empty_dir\<lparr>vectorizer_pkl := Pickle 1, classifier_pkl := Pickle 1\<rparr>),
      (toy_model, \<lparr>vectorizer_pkl = Pickle 1, classifier_pkl = Pickle 1,
                   category_mapping_pkl = Pickle (Some [(0, 7), (1, 8)])\<rparr>)]"
  by code_simp

lemma toy_steps_fail:
  "train_model_steps (toy_sklearn [9/10, 1/10]) (\<lambda>f. OpenFails) toy_categories no_model
         empty_dir toy_data
   = ([(no_model\<lparr>category_mapping := Some [(0, 7), (1, 8)]\<rparr>, empty_dir),
       (no_model\<lparr>category_mapping := Some [(0, 7), (1, 8)],
                 reverse_mapping := Some [(7, 0), (8, 1)]\<rparr>, empty_dir),
       (toy_model\<lparr>vectorizer := Some 0, classifier := None\<rparr>, empty_dir),
       (toy_model\<lparr>classifier := None\<rparr>, empty_dir),
       (toy_model\<lparr>classifier := Some 0\<rparr>, empty_dir),
       (toy_model, empty_dir),
       (toy_model, empty_dir)],
      Inr (Success 1 12 2 ()))"
  by code_simp

lemma toy_filtered_7: "filtered_samples (map fst toy_data) (map snd toy_data) 7 = []"
  by code_simp

subsection \<open>C5: training on too few samples\<close>

text \<open>
  C5: when fewer than 10 samples are left after the filter on the minimum number of
  samples per category, \<open>train\<close> returns a failure result, goes through no intermediate
  state, and leaves the instance and the model directory as they were.
\<close>

theorem train_insufficient_data:
  assumes "length (filtered_samples (fst (get_training_data cats txns))
                     (snd (get_training_data cats txns)) n) < 10"
  shows "(\<exists>msg. snd (train sk io cats txns self d n) = Inr (Failure msg))
    \<and> fst (train sk io cats txns self d n) = []
    \<and> final_state (self, d) (fst (train sk io cats txns self d n)) = (self, d)"
  using train_insufficient [OF assms, of sk io self d]
  by (auto simp: final_state_def)

theorem train_insufficient_data_witness:
  "length (filtered_samples (fst (get_training_data toy_categories toy_transactions))
             (snd (get_training_data toy_categories toy_transactions)) 7) < 10
   \<and> (\<exists>msg. snd (train (toy_sklearn [9/10, 1/10]) (\<lambda>f. Written) toy_categories
                     toy_transactions old_model empty_dir 7) = Inr (Failure msg))
   \<and> fst (train (toy_sklearn [9/10, 1/10]) (\<lambda>f. Written) toy_categories toy_transactions
            old_model empty_dir 7) = []
   \<and> final_state (old_model, empty_dir)
        (fst (train (toy_sklearn [9/10, 1/10]) (\<lambda>f. Written) toy_categories toy_transactions
                old_model empty_dir 7)) = (old_model, empty_dir)"
proof -
  have h: "length (filtered_samples (fst (get_training_data toy_categories toy_transactions))
             (snd (get_training_data toy_categories toy_transactions)) 7) < 10"
    by (simp add: toy_training_data toy_filtered_7)
  show ?thesis
    using h train_insufficient_data
              [OF h, of "toy_sklearn [9/10, 1/10]" "\<lambda>f. Written" old_model empty_dir]
    by blast
qed

subsection \<open>C2: the order of the in-memory update and the serialization\<close>

text \<open>
  C2, as the specification states it, fails: \<open>train\<close> assigns the new label mapping to
  the instance first, while the vectorizer and the classifier are still the old ones and
  nothing has been written. Retraining \<open>old_model\<close> on the twelve toy transactions starts
  with such a state.
\<close>

theorem train_exposes_partial_model:
  "hd (fst (train (toy_sklearn [9/10, 1/10]) (\<lambda>f. Written) toy_categories toy_transactions
             old_model empty_dir 2))
     = (old_model\<lparr>category_mapping := Some [(0, 7), (1, 8)]\<rparr>, empty_dir)
   \<and> \<not> atomic_swap (old_model, empty_dir)
         (fst (train (toy_sklearn [9/10, 1/10]) (\<lambda>f. Written) toy_categories toy_transactions
                old_model empty_dir 2))"
  unfolding toy_train toy_steps_old
  by code_simp

text \<open>
  C2, amended: a run of \<open>train\<close> that changes anything starts by replacing the label
  mapping alone, and it writes to the model directory only after the last in-memory
  assignment: in every intermediate state either the directory is still as it was before
  the call or the instance is already the one the call leaves behind.
\<close>

theorem train_memory_before_disk:
  "(\<forall>(m, d') \<in> set (fst (train sk io cats txns self d n)).
      d' = d \<or> m = fst (final_state (self, d) (fst (train sk io cats txns self d n))))
   \<and> (fst (train sk io cats txns self d n) \<noteq> [] \<longrightarrow>
        (\<exists>mapping. hd (fst (train sk io cats txns self d n))
                      = (self\<lparr>category_mapping := Some mapping\<rparr>, d)))"
proof (cases "fst (train sk io cats txns self d n) = []")
  case True
  then show ?thesis by simp
next
  case False
  then obtain filtered where
    t: "train sk io cats txns self d n = train_model_steps sk io cats self d filtered"
    by (auto simp: train_def Let_def split: prod.splits if_splits)
  show ?thesis
    unfolding t using steps_memory_first [of _ _ sk io cats self d filtered]
      steps_first [of sk io cats self d filtered]
    by auto
qed

theorem train_memory_before_disk_witness:
  "fst (train (toy_sklearn [9/10, 1/10]) (\<lambda>f. Written) toy_categories toy_transactions
          old_model empty_dir 2) \<noteq> []
   \<and> (\<exists>mapping. hd (fst (train (toy_sklearn [9/10, 1/10]) (\<lambda>f. Written) toy_categories
                            toy_transactions old_model empty_dir 2))
                   = (old_model\<lparr>category_mapping := Some mapping\<rparr>, empty_dir))
   \<and> (toy_model, empty_dir\<lparr>vectorizer_pkl := Pickle 1\<rparr>)
        \<in> set (fst (train (toy_sklearn [9/10, 1/10]) (\<lambda>f. Written) toy_categories
                      toy_transactions old_model empty_dir 2))
   \<and> toy_model
       = fst (final_state (old_model, empty_dir)
                (fst (train (toy_sklearn [9/10, 1/10]) (\<lambda>f. Written) toy_categories
                        toy_transactions old_model empty_dir 2)))"
proof -
  let ?steps = "fst (train (toy_sklearn [9/10, 1/10]) (\<lambda>f. Written) toy_categories
                      toy_transactions old_model empty_dir 2)"
  note claim = train_memory_before_disk
    [of "toy_sklearn [9/10, 1/10]" "\<lambda>f. Written" toy_categories toy_transactions old_model
        empty_dir 2]
  have ne: "?steps \<noteq> []"
    unfolding toy_train toy_steps_old by simp
  have mem: "(toy_model, empty_dir\<lparr>vectorizer_pkl := Pickle 1\<rparr>) \<in> set ?steps"
    unfolding toy_train toy_steps_old by simp
  have diff: "empty_dir\<lparr>vectorizer_pkl := Pickle 1\<rparr> \<noteq> empty_dir"
    by (simp add: empty_dir_def)
  from claim ne have first: "\<exists>mapping. hd ?steps = (old_model\<lparr>category_mapping := Some mapping\<rparr>, empty_dir)"
    by blast
  from claim mem diff have last: "toy_model = fst (final_state (old_model, empty_dir) ?steps)"
    by blast
  show ?thesis using ne first mem last by blast
qed

subsection \<open>C3: failures of persistence\<close>

text \<open>
  C3, as the specification states it, fails in its first half: \<open>train\<close> drops the result
  of \<open>save_model\<close>. When no file of the directory can be opened, \<open>save_model\<close> returns
  \<open>False\<close>, \<open>train\<close> returns a success result all the same, and the directory is left
  empty.
\<close>

theorem train_succeeds_when_save_fails:
  "snd (save_model (\<lambda>f. OpenFails) toy_model empty_dir) = False
   \<and> snd (train (toy_sklearn [9/10, 1/10]) (\<lambda>f. OpenFails) toy_categories toy_transactions
           no_model empty_dir 2) = Inr (Success 1 12 2 ())
   \<and> final_state (no_model, empty_dir)
        (fst (train (toy_sklearn [9/10, 1/10]) (\<lambda>f. OpenFails) toy_categories toy_transactions
                no_model empty_dir 2)) = (toy_model, empty_dir)"
  unfolding toy_train toy_steps_fail
  by code_simp

text \<open>
  C3, amended: what \<open>train\<close> returns or raises does not depend on how the writes of
  \<open>save_model\<close> end; and when \<open>load_model\<close> fails on a fresh instance, that instance
  answers \<open>(None, 0)\<close> to every prediction.
\<close>

theorem train_ignores_save_result:
  "snd (train sk io cats txns self d n) = snd (train sk io' cats txns self d n)
   \<and> (snd (load_model blank_categorizer dir) = False \<longrightarrow>
        predict sk (new_categorizer dir) text thr = (None, 0))"
proof (intro conjI impI)
  show "snd (train sk io cats txns self d n) = snd (train sk io' cats txns self d n)"
    by (rule train_outcome_io)
next
  assume "snd (load_model blank_categorizer dir) = False"
  from load_failed_state [OF this] show "predict sk (new_categorizer dir) text thr = (None, 0)"
    unfolding new_categorizer_def
    using predict_no_classifier predict_no_mapping by blast
qed

theorem train_ignores_save_result_witness:
  "snd (load_model blank_categorizer garbled_dir) = False
   \<and> predict (toy_sklearn [9/10, 1/10]) (new_categorizer garbled_dir) ''Book Shop'' 0.15
       = (None, 0)"
proof -
  have h: "snd (load_model blank_categorizer garbled_dir) = False"
    by code_simp
  show ?thesis
    using h train_ignores_save_result
              [of "toy_sklearn [9/10, 1/10]" _ _ _ _ _ _ _ garbled_dir "''Book Shop''" "0.15"]
    by blast
qed

end
